theory Spec2Isabelle
  imports Main "HOL-Library.Multiset"
begin

section \<open>Hook Scheduler (plugins/index.ts, getSortedPluginsByHook)\<close>

text \<open>
  A plugin is an object; \<open>plugin[hookName]\<close> is either falsy (the plugin does not
  implement the hook), a value that is not an object (a bare handler), or an object that
  may carry an \<open>order\<close> property. Only these three shapes are inspected by the scheduler.
\<close>

datatype 'h hook_value =
    Falsy
  | Bare 'h
  | ObjectHook "string option" 'h

record 'h plugin =
  name :: string
  hooks :: "string \<Rightarrow> 'h hook_value"

text \<open>
  \<open>Array.prototype.splice(start, 0, item)\<close>: insert \<open>item\<close> before index \<open>start\<close>; a start
  beyond the length is clamped to the length, which is what \<open>take\<close> and \<open>drop\<close> do.
\<close>

definition splice :: "nat \<Rightarrow> 'a \<Rightarrow> 'a list \<Rightarrow> 'a list" where
  "splice start item xs = take start xs @ item # drop start xs"

record 'h sort_state =
  sortedPlugins :: "'h plugin list"
  pre :: nat
  normal :: nat
  post :: nat

text \<open>One iteration of the \<open>for (const plugin of plugins)\<close> loop, lines 190 to 205.\<close>

definition sort_step :: "string \<Rightarrow> 'h sort_state \<Rightarrow> 'h plugin \<Rightarrow> 'h sort_state" where
  "sort_step hookName s plugin =
     (case hooks plugin hookName of
        Falsy \<Rightarrow> s
      | Bare h \<Rightarrow>
          s\<lparr>sortedPlugins := splice (pre s + normal s) plugin (sortedPlugins s),
            normal := Suc (normal s)\<rparr>
      | ObjectHook ord h \<Rightarrow>
          if ord = Some ''pre'' then
            s\<lparr>sortedPlugins := splice (pre s) plugin (sortedPlugins s), pre := Suc (pre s)\<rparr>
          else if ord = Some ''post'' then
            s\<lparr>sortedPlugins := splice (pre s + normal s + post s) plugin (sortedPlugins s),
              post := Suc (post s)\<rparr>
          else
            s\<lparr>sortedPlugins := splice (pre s + normal s) plugin (sortedPlugins s),
              normal := Suc (normal s)\<rparr>)"

definition getSortedPluginsByHook :: "string \<Rightarrow> 'h plugin list \<Rightarrow> 'h plugin list" where
  "getSortedPluginsByHook hookName plugins =
     sortedPlugins
       (foldl (sort_step hookName) \<lparr>sortedPlugins = [], pre = 0, normal = 0, post = 0\<rparr> plugins)"

text \<open>
  The reference of the specification, in its own words: three buffers, one per tier,
  each filled in manifest order, concatenated at the end.
\<close>

definition implements_hook :: "string \<Rightarrow> 'h plugin \<Rightarrow> bool" where
  "implements_hook hookName p = (hooks p hookName \<noteq> Falsy)"

definition declares_order :: "string \<Rightarrow> string \<Rightarrow> 'h plugin \<Rightarrow> bool" where
  "declares_order hookName tag p =
     (case hooks p hookName of ObjectHook (Some t) h \<Rightarrow> t = tag | _ \<Rightarrow> False)"

definition pre_tier :: "string \<Rightarrow> 'h plugin \<Rightarrow> bool" where
  "pre_tier hookName p = declares_order hookName ''pre'' p"

definition post_tier :: "string \<Rightarrow> 'h plugin \<Rightarrow> bool" where
  "post_tier hookName p = declares_order hookName ''post'' p"

definition normal_tier :: "string \<Rightarrow> 'h plugin \<Rightarrow> bool" where
  "normal_tier hookName p =
     (implements_hook hookName p \<and> \<not> pre_tier hookName p \<and> \<not> post_tier hookName p)"

definition three_buffer_partition :: "string \<Rightarrow> 'h plugin list \<Rightarrow> 'h plugin list" where
  "three_buffer_partition hookName plugins =
     filter (pre_tier hookName) plugins
     @ filter (normal_tier hookName) plugins
     @ filter (post_tier hookName) plugins"

text \<open>The position of a plugin's tier in the schedule: pre, then normal, then post.\<close>

definition tier_rank :: "string \<Rightarrow> 'h plugin \<Rightarrow> nat" where
  "tier_rank hookName p =
     (if pre_tier hookName p then 0 else if post_tier hookName p then 2 else 1)"

section \<open>Build options (build/index.ts, resolveBuildOptions)\<close>

text \<open>
  \<open>BuildOptions\<close>: every property is optional. An object can lack the property
  (\<open>Absent\<close>), carry it with the value \<open>undefined\<close>, which the optional property types
  admit (\<open>Undefined\<close>), or carry it with a value of the declared type (\<open>Value v\<close>). The two
  object-valued options (\<open>terserOptions\<close>, \<open>rollupOptions\<close>) are opaque here: a list of
  property names with their values as text, \<open>[]\<close> for the empty object literal.
\<close>

datatype 'a property = Absent | Undefined | Value 'a

datatype sourcemap_setting = SourcemapBool bool | SourcemapInline

datatype minify_setting = MinifyBool bool | MinifyTerser | MinifyEsbuild

type_synonym js_object = "(string \<times> string) list"

record BuildOptions =
  entry :: "string property"
  base :: "string property"
  outDir :: "string property"
  assetsDir :: "string property"
  assetsInlineLimit :: "int property"
  cssCodeSplit :: "bool property"
  sourcemap :: "sourcemap_setting property"
  minify :: "minify_setting property"
  terserOptions :: "js_object property"
  ssr :: "bool property"
  rollupOptions :: "js_object property"
  write_bundle :: "bool property"
  emitIndex :: "bool property"
  emitAssets :: "bool property"
  emitManifest :: "bool property"

text \<open>
  The object the function builds and returns, declared \<open>Required<BuildOptions>\<close>: it has
  every property; \<open>None\<close> is a property whose value is \<open>undefined\<close>.
\<close>

record ResolvedBuildOptions =
  resolved_entry :: "string option"
  resolved_base :: "string option"
  resolved_outDir :: "string option"
  resolved_assetsDir :: "string option"
  resolved_assetsInlineLimit :: "int option"
  resolved_cssCodeSplit :: "bool option"
  resolved_sourcemap :: "sourcemap_setting option"
  resolved_minify :: "minify_setting option"
  resolved_terserOptions :: "js_object option"
  resolved_ssr :: "bool option"
  resolved_rollupOptions :: "js_object option"
  resolved_write :: "bool option"
  resolved_emitIndex :: "bool option"
  resolved_emitAssets :: "bool option"
  resolved_emitManifest :: "bool option"

text \<open>
  What the spread \<open>...raw\<close> contributes for one property: nothing when \<open>raw\<close> is
  missing, and otherwise whatever \<open>raw\<close> has for it.
\<close>

definition own_property :: "('r \<Rightarrow> 'a property) \<Rightarrow> 'r option \<Rightarrow> 'a property" where
  "own_property field raw = (case raw of None \<Rightarrow> Absent | Some r \<Rightarrow> field r)"

text \<open>
  One property of the object literal \<open>{ key: dflt, ...raw }\<close>: the spread copies every own
  property of \<open>raw\<close> over the default, also one whose value is \<open>undefined\<close>.
\<close>

definition spread_property :: "'a \<Rightarrow> 'a property \<Rightarrow> 'a option" where
  "spread_property dflt p =
     (case p of Absent \<Rightarrow> Some dflt | Undefined \<Rightarrow> None | Value v \<Rightarrow> Some v)"

text \<open>
  \<open>s.replace(/([^/])$/, '$1/')\<close>: the pattern matches one character other than \<open>/\<close>
  standing at the very end of the string; the replacement puts that character back and
  a \<open>/\<close> after it. On the empty string and on a string ending in \<open>/\<close> nothing matches
  and the string is returned as it is.
\<close>

definition ensure_ending_slash :: "string \<Rightarrow> string" where
  "ensure_ending_slash s =
     (if s \<noteq> [] \<and> last s \<noteq> CHR ''/'' then butlast s @ [last s, CHR ''/''] else s)"

text \<open>
  What \<open>resolveBuildOptions\<close> can throw: reading \<open>replace\<close> from \<open>undefined\<close> is a
  \<open>TypeError\<close>.
\<close>

datatype build_failure = TypeError

text \<open>
  \<open>resolveBuildOptions(raw?)\<close>, lines 113 to 139. A missing \<open>raw\<close> spreads nothing, so
  every property keeps its default. The call \<open>resolved.base.replace(...)\<close> throws when the
  spread has left \<open>undefined\<close> in \<open>base\<close>.
\<close>

definition resolveBuildOptions ::
  "BuildOptions option \<Rightarrow> build_failure + ResolvedBuildOptions" where
  "resolveBuildOptions raw =
     (let resolved =
            \<lparr>resolved_entry = spread_property ''index.html'' (own_property entry raw),
             resolved_base = spread_property ''/'' (own_property base raw),
             resolved_outDir = spread_property ''dist'' (own_property outDir raw),
             resolved_assetsDir = spread_property ''assets'' (own_property assetsDir raw),
             resolved_assetsInlineLimit = spread_property 4096 (own_property assetsInlineLimit raw),
             resolved_cssCodeSplit = spread_property True (own_property cssCodeSplit raw),
             resolved_sourcemap = spread_property (SourcemapBool False) (own_property sourcemap raw),
             resolved_minify = spread_property MinifyTerser (own_property minify raw),
             resolved_terserOptions = spread_property [] (own_property terserOptions raw),
             resolved_ssr = spread_property False (own_property ssr raw),
             resolved_rollupOptions = spread_property [] (own_property rollupOptions raw),
             resolved_write = spread_property True (own_property write_bundle raw),
             resolved_emitIndex = spread_property True (own_property emitIndex raw),
             resolved_emitAssets = spread_property True (own_property emitAssets raw),
             resolved_emitManifest = spread_property False (own_property emitManifest raw)\<rparr>
      in case resolved_base resolved of
           None \<Rightarrow> Inl TypeError
         | Some b \<Rightarrow> Inr (resolved\<lparr>resolved_base := Some (ensure_ending_slash b)\<rparr>))"

text \<open>The object literal \<open>{}\<close> as a \<open>BuildOptions\<close> value: no property supplied.\<close>

definition no_options :: BuildOptions where
  "no_options =
     \<lparr>entry = Absent, base = Absent, outDir = Absent, assetsDir = Absent,
      assetsInlineLimit = Absent, cssCodeSplit = Absent, sourcemap = Absent, minify = Absent,
      terserOptions = Absent, ssr = Absent, rollupOptions = Absent, write_bundle = Absent,
      emitIndex = Absent, emitAssets = Absent, emitManifest = Absent\<rparr>"

text \<open>The number of \<open>/\<close> separators a path ends with.\<close>

definition trailing_slashes :: "string \<Rightarrow> nat" where
  "trailing_slashes s = length (takeWhile (\<lambda>c. c = CHR ''/'') (rev s))"

section \<open>Build session (build/index.ts, build and doBuild)\<close>

text \<open>
  The module-level state: the counter \<open>parallelCallCounts\<close> and the array
  \<open>paralellBuilds\<close>. Two observation fields record the effects of the cleanup: the
  handles on which \<open>close()\<close> was called, in call order, and how often the array was
  emptied.

  JavaScript runs each synchronous stretch of an async function to its next \<open>await\<close>
  without interruption, so overlapping \<open>build()\<close> calls interleave as whole steps:
  \<^item> \<open>Enter\<close>: \<open>parallelCallCounts++\<close> at the entry of \<open>build\<close>;
  \<^item> \<open>Push b\<close>: \<open>paralellBuilds.push(bundle)\<close> inside \<open>doBuild\<close>;
  \<^item> \<open>Exit outcome\<close>: the \<open>finally\<close> block of \<open>build\<close>, entered when \<open>doBuild\<close>
    returned or threw.
\<close>

record 'b session =
  parallelCallCounts :: int
  paralellBuilds :: "'b list"
  closed :: "'b list"
  teardowns :: nat

datatype outcome = Returned | Threw

datatype 'b event = Enter | Push 'b | Exit outcome

definition build_finally :: "'b session \<Rightarrow> 'b session" where
  "build_finally s =
     (let s1 = s\<lparr>parallelCallCounts := parallelCallCounts s - 1\<rparr>
      in if parallelCallCounts s1 \<le> 0
         then s1\<lparr>closed := closed s1 @ paralellBuilds s1, paralellBuilds := [],
                teardowns := Suc (teardowns s1)\<rparr>
         else s1)"

fun session_step :: "'b session \<Rightarrow> 'b event \<Rightarrow> 'b session" where
  "session_step s Enter = s\<lparr>parallelCallCounts := parallelCallCounts s + 1\<rparr>"
| "session_step s (Push b) = s\<lparr>paralellBuilds := paralellBuilds s @ [b]\<rparr>"
| "session_step s (Exit outcome) = build_finally s"

definition session_init :: "'b session" where
  "session_init = \<lparr>parallelCallCounts = 0, paralellBuilds = [], closed = [], teardowns = 0\<rparr>"

definition run_session :: "'b event list \<Rightarrow> 'b session" where
  "run_session evs = foldl session_step session_init evs"

text \<open>
  An interleaving of \<open>build()\<close> invocations: a \<open>finally\<close> block only runs for an
  invocation that entered and has not left yet, and \<open>doBuild\<close> only runs inside such
  an invocation. \<open>in_flight n evs\<close> checks this for a trace that starts with \<open>n\<close>
  invocations in flight; \<open>active evs\<close> counts those in flight after \<open>evs\<close>.
\<close>

fun in_flight :: "nat \<Rightarrow> 'b event list \<Rightarrow> bool" where
  "in_flight n [] = True"
| "in_flight n (Enter # evs) = in_flight (Suc n) evs"
| "in_flight n (Push b # evs) = (0 < n \<and> in_flight n evs)"
| "in_flight n (Exit outcome # evs) = (0 < n \<and> in_flight (n - 1) evs)"

definition interleaving :: "'b event list \<Rightarrow> bool" where
  "interleaving evs = in_flight 0 evs"

definition is_exit :: "'b event \<Rightarrow> bool" where
  "is_exit e = (case e of Exit outcome \<Rightarrow> True | _ \<Rightarrow> False)"

definition active :: "'b event list \<Rightarrow> int" where
  "active evs = int (length (filter (\<lambda>e. e = Enter) evs)) - int (length (filter is_exit evs))"

text \<open>
  The steps of a trace at which the counter returns to zero: the exits after which no
  invocation is in flight.
\<close>

definition returns_to_zero :: "'b event list \<Rightarrow> nat list" where
  "returns_to_zero evs =
     filter (\<lambda>k. is_exit (evs ! k) \<and> active (take (Suc k) evs) = 0) [0..<length evs]"

section \<open>Pipeline Assembler (plugins/index.ts, resolvePlugins)\<close>

text \<open>
  The elements of the returned array are the objects made by the built-in plugin
  factories, one constructor per factory, and the plugin objects handed in from outside:
  the three user lists and the lists of \<open>resolveBuildPlugins\<close>, all \<open>Supplied\<close>. A slot of
  the array literal is \<open>None\<close> where the source has \<open>null\<close> or \<open>false\<close>;
  \<open>filter(Boolean)\<close> drops those. \<open>isDepsOptimizerEnabled\<close> and \<open>resolveBuildPlugins\<close> are
  imported and are parameters here.
\<close>

datatype 'p stage =
    OptimizedDepsPlugin
  | MetadataPlugin
  | WatchPackageDataPlugin
  | PreAliasPlugin
  | NativeAliasPlugin
  | AliasPlugin
  | Supplied 'p
  | NativeModulePreloadPolyfillPlugin bool
  | ModulePreloadPolyfillPlugin
  | ResolvePlugin
  | HtmlInlineProxyPlugin
  | CssPlugin
  | NativeTransformPlugin
  | EsbuildPlugin
  | NativeJsonPlugin
  | JsonPlugin
  | NativeWasmHelperPlugin
  | WasmHelperPlugin
  | WebWorkerPlugin
  | AssetPlugin
  | NativeWasmFallbackPlugin
  | WasmFallbackPlugin
  | DefinePlugin
  | CssPostPlugin
  | BuildHtmlPlugin
  | WorkerImportMetaUrlPlugin
  | AssetImportMetaUrlPlugin
  | NativeDynamicImportVarsPlugin
  | DynamicImportVarsPlugin
  | NativeImportGlobPlugin
  | ImportGlobPlugin
  | ClientInjectionsPlugin
  | CssAnalysisPlugin
  | ImportAnalysisPlugin

datatype module_preload = ModulePreloadFalse | ModulePreloadOptions bool

datatype esbuild_config = EsbuildFalse | EsbuildOptions

record ResolvedConfig =
  config_command :: string
  config_isWorker :: bool
  config_build_modulePreload :: module_preload
  config_build_ssr :: bool
  config_enableNativePlugin :: bool
  config_esbuild :: esbuild_config
  config_root :: string

primrec filter_Boolean :: "'a option list \<Rightarrow> 'a list" where
  "filter_Boolean [] = []"
| "filter_Boolean (slot # slots) =
     (case slot of None \<Rightarrow> filter_Boolean slots | Some p \<Rightarrow> p # filter_Boolean slots)"

definition resolvePlugins ::
  "(ResolvedConfig \<Rightarrow> bool \<Rightarrow> bool) \<Rightarrow> (ResolvedConfig \<Rightarrow> 'p list \<times> 'p list)
     \<Rightarrow> ResolvedConfig \<Rightarrow> 'p list \<Rightarrow> 'p list \<Rightarrow> 'p list \<Rightarrow> 'p stage list" where
  "resolvePlugins isDepsOptimizerEnabled resolveBuildPlugins config prePlugins normalPlugins postPlugins =
     (let isBuild = (config_command config = ''build'');
          isWorker = config_isWorker config;
          buildPlugins = (if isBuild then resolveBuildPlugins config else ([], []));
          modulePreload = config_build_modulePreload config;
          enableNativePlugin = config_enableNativePlugin config;
          depsOptimizerEnabled =
            (\<not> isBuild \<and>
             (isDepsOptimizerEnabled config False \<or> isDepsOptimizerEnabled config True))
      in filter_Boolean
          ([if depsOptimizerEnabled then Some OptimizedDepsPlugin else None,
            if isBuild then Some MetadataPlugin else None,
            if \<not> isWorker then Some WatchPackageDataPlugin else None,
            if \<not> isBuild then Some PreAliasPlugin else None,
            if enableNativePlugin then Some NativeAliasPlugin else Some AliasPlugin]
           @ map (\<lambda>p. Some (Supplied p)) prePlugins
           @ [case modulePreload of
                ModulePreloadFalse \<Rightarrow> None
              | ModulePreloadOptions polyfill \<Rightarrow>
                  if polyfill then
                    (if enableNativePlugin
                     then Some (NativeModulePreloadPolyfillPlugin
                                 (config_command config \<noteq> ''build'' \<or> config_build_ssr config))
                     else Some ModulePreloadPolyfillPlugin)
                  else None,
              Some ResolvePlugin,
              Some HtmlInlineProxyPlugin,
              Some CssPlugin,
              if config_esbuild config \<noteq> EsbuildFalse
              then (if enableNativePlugin then Some NativeTransformPlugin else Some EsbuildPlugin)
              else None,
              if enableNativePlugin then Some NativeJsonPlugin else Some JsonPlugin,
              if enableNativePlugin then Some NativeWasmHelperPlugin else Some WasmHelperPlugin,
              Some WebWorkerPlugin,
              Some AssetPlugin]
           @ map (\<lambda>p. Some (Supplied p)) normalPlugins
           @ [if enableNativePlugin then Some NativeWasmFallbackPlugin else Some WasmFallbackPlugin,
              Some DefinePlugin,
              Some CssPostPlugin,
              if isBuild then Some BuildHtmlPlugin else None,
              Some WorkerImportMetaUrlPlugin,
              Some AssetImportMetaUrlPlugin]
           @ map (\<lambda>p. Some (Supplied p)) (fst buildPlugins)
           @ [if enableNativePlugin then Some NativeDynamicImportVarsPlugin
              else Some DynamicImportVarsPlugin,
              if enableNativePlugin then Some NativeImportGlobPlugin else Some ImportGlobPlugin]
           @ map (\<lambda>p. Some (Supplied p)) postPlugins
           @ map (\<lambda>p. Some (Supplied p)) (snd buildPlugins)
           @ (if isBuild then []
              else [Some ClientInjectionsPlugin, Some CssAnalysisPlugin, Some ImportAnalysisPlugin])))"

definition server_only :: "'p stage \<Rightarrow> bool" where
  "server_only p = (p = ClientInjectionsPlugin \<or> p = CssAnalysisPlugin \<or> p = ImportAnalysisPlugin)"

text \<open>A configuration for examples: a dev-server or build run rooted at \<open>/app\<close>.\<close>

definition example_config :: "string \<Rightarrow> ResolvedConfig" where
  "example_config cmd =
     \<lparr>config_command = cmd, config_isWorker = False,
      config_build_modulePreload = ModulePreloadOptions True, config_build_ssr = False,
      config_enableNativePlugin = False, config_esbuild = EsbuildOptions, config_root = ''/app''\<rparr>"

section \<open>Transform Configuration Resolver (transformWithOxc, lines 226 to 404)\<close>

text \<open>The character class \<open>\w\<close> of a JavaScript regular expression: \<open>[A-Za-z0-9_]\<close>.\<close>

definition word_char :: "char \<Rightarrow> bool" where
  "word_char c =
     (let n = (of_char c :: nat)
      in (48 \<le> n \<and> n \<le> 57) \<or> (65 \<le> n \<and> n \<le> 90) \<or> n = 95 \<or> (97 \<le> n \<and> n \<le> 122))"

text \<open>
  \<open>validExtensionRE.test(s)\<close> with \<open>validExtensionRE = /\.\w+$/\<close>: the string ends in
  a dot followed by one or more word characters. The dot is not a word character, so it
  is the character right before the longest run of word characters at the end.
\<close>

definition validExtensionRE_test :: "string \<Rightarrow> bool" where
  "validExtensionRE_test s =
     (let r = rev s; run = takeWhile word_char r; front = dropWhile word_char r
      in run \<noteq> [] \<and> front \<noteq> [] \<and> hd front = CHR ''.'')"

text \<open>
  Modelled from the spec: \<open>cleanUrl\<close> is imported from \<open>../../shared/utils\<close>, which is
  not among the sources. The specification has it strip a trailing query-like suffix:
  everything from the first \<open>?\<close> or \<open>#\<close> on.
\<close>

definition cleanUrl :: "string \<Rightarrow> string" where
  "cleanUrl url = takeWhile (\<lambda>c. c \<noteq> CHR ''?'' \<and> c \<noteq> CHR ''#'') url"

text \<open>
  \<open>path.extname\<close> of the platform library (\<open>node:path\<close>, POSIX flavour), which the
  function calls: a scan from the last character to the first that remembers the last
  dot of the last path component. \<open>extname_loop path n st\<close> runs the iterations for
  \<open>i = n - 1\<close> down to \<open>0\<close>; the value \<open>-1\<close> stands for "not seen yet", as in the library.
\<close>

record extname_state =
  startDot :: int
  startPart :: int
  endPos :: int
  matchedSlash :: bool
  preDotState :: int

fun extname_loop :: "string \<Rightarrow> nat \<Rightarrow> extname_state \<Rightarrow> extname_state" where
  "extname_loop path 0 st = st"
| "extname_loop path (Suc i) st =
     (if path ! i = CHR ''/'' then
        (if \<not> matchedSlash st then st\<lparr>startPart := int i + 1\<rparr>
         else extname_loop path i st)
      else
        (let st1 = (if endPos st = - 1 then st\<lparr>matchedSlash := False, endPos := int i + 1\<rparr>
                    else st);
             st2 = (if path ! i = CHR ''.'' then
                      (if startDot st1 = - 1 then st1\<lparr>startDot := int i\<rparr>
                       else if preDotState st1 \<noteq> 1 then st1\<lparr>preDotState := 1\<rparr>
                       else st1)
                    else if startDot st1 \<noteq> - 1 then st1\<lparr>preDotState := - 1\<rparr>
                    else st1)
         in extname_loop path i st2))"

definition extname :: "string \<Rightarrow> string" where
  "extname path =
     (let st = extname_loop path (length path)
                 \<lparr>startDot = - 1, startPart = 0, endPos = - 1, matchedSlash = True,
                  preDotState = 0\<rparr>
      in if startDot st = - 1 \<or> endPos st = - 1 \<or> preDotState st = 0
            \<or> (preDotState st = 1 \<and> startDot st = endPos st - 1
                \<and> startDot st = startPart st + 1)
         then []
         else take (nat (endPos st) - nat (startDot st)) (drop (nat (startDot st)) path))"

text \<open>
  Lines 265 to 281. \<open>!lang\<close> holds for a missing \<open>lang\<close> and for the empty string.
\<close>

definition resolve_lang :: "string option \<Rightarrow> string \<Rightarrow> string" where
  "resolve_lang lang filename =
     (if lang = None \<or> lang = Some [] then
        (let ext = drop 1 (extname (if validExtensionRE_test filename then filename
                                    else cleanUrl filename))
         in if ext = ''cjs'' \<or> ext = ''mjs'' then ''js''
            else if ext = ''cts'' \<or> ext = ''mts'' then ''ts''
            else ext)
      else the lang)"

text \<open>The extension-to-dialect table of the specification.\<close>

definition dialect_of_extension :: "string \<Rightarrow> string" where
  "dialect_of_extension ext =
     (if ext \<in> {''cjs'', ''mjs''} then ''js''
      else if ext \<in> {''cts'', ''mts''} then ''ts''
      else ext)"

text \<open>
  The options of a transform call are passed as one optional object whose properties are
  each present with a value or missing. \<open>supplied field options\<close> is what the spread
  \<open>...options\<close> contributes for one property, nothing when \<open>options\<close> is missing or does
  not carry it; \<open>spread_over dflt p\<close> is one property of \<open>{ key: dflt, ...options }\<close>.
\<close>

definition spread_over :: "'a \<Rightarrow> 'a option \<Rightarrow> 'a" where
  "spread_over dflt supplied = (case supplied of None \<Rightarrow> dflt | Some v \<Rightarrow> v)"

definition supplied :: "('r \<Rightarrow> 'a option) \<Rightarrow> 'r option \<Rightarrow> 'a option" where
  "supplied field raw = (case raw of None \<Rightarrow> None | Some r \<Rightarrow> field r)"

text \<open>
  The option objects. \<open>JsxOptions\<close> and \<open>TypeScriptOptions\<close> carry the properties this
  code reads or writes; \<open>OxcTransformOptions\<close> is what a caller passes in, and
  \<open>ResolvedOptions\<close> is the object \<open>{ sourcemap: true, ...options, lang }\<close> handed to the
  transform engine.
\<close>

record JsxOptions =
  jsx_runtime :: "string option"
  jsx_development :: "bool option"
  jsx_pragma :: "string option"
  jsx_pragmaFrag :: "string option"
  jsx_importSource :: "string option"

record TypeScriptOptions =
  onlyRemoveTypeImports :: "bool option"

record OxcTransformOptions =
  options_lang :: "string option"
  options_sourcemap :: "bool option"
  options_jsx :: "JsxOptions option"
  options_typescript :: "TypeScriptOptions option"

record ResolvedOptions =
  resolvedOptions_sourcemap :: bool
  resolvedOptions_jsx :: "JsxOptions option"
  resolvedOptions_typescript :: "TypeScriptOptions option"
  resolvedOptions_lang :: string

text \<open>The \<open>compilerOptions\<close> of a loaded tsconfig, as far as they are read here.\<close>

record CompilerOptions =
  jsxFactory :: "string option"
  jsxFragmentFactory :: "string option"
  jsxImportSource :: "string option"
  jsx :: "string option"
  verbatimModuleSyntax :: "bool option"
  preserveValueImports :: "bool option"
  importsNotUsedAsValues :: "string option"

record Tsconfig =
  compilerOptions :: "CompilerOptions option"

text \<open>
  What can be thrown: the parse error of the tsconfig loader, which names the settings
  file when it knows it; the \<open>new Error(message)\<close> raised for an engine diagnostic; any
  other value the loader may throw.
\<close>

datatype thrown =
    TSConfckParseError string "string option"
  | Error string
  | OtherFailure string

text \<open>
  The effects of one call, in the order they happen: \<open>ctx.warn(message)\<close> and
  \<open>ensureWatchedFile(watcher, file, root)\<close>.
\<close>

datatype 'w effect =
    Warn string
  | EnsureWatchedFile 'w string string

record SourceMap =
  sources :: "string list"
  sourcesContent :: "string list"
  mappings :: string

record TransformResult =
  result_code :: string
  result_map :: "SourceMap option"
  result_errors :: "string list"

text \<open>JavaScript truthiness of an optional string: present and not empty.\<close>

definition truthy :: "string option \<Rightarrow> bool" where
  "truthy s = (s \<noteq> None \<and> s \<noteq> Some [])"

text \<open>A boolean inside a template literal.\<close>

definition show_bool :: "bool \<Rightarrow> string" where
  "show_bool b = (if b then ''true'' else ''false'')"

definition empty_CompilerOptions :: CompilerOptions where
  "empty_CompilerOptions =
     \<lparr>jsxFactory = None, jsxFragmentFactory = None, jsxImportSource = None, jsx = None,
      verbatimModuleSyntax = None, preserveValueImports = None, importsNotUsedAsValues = None\<rparr>"

definition empty_JsxOptions :: JsxOptions where
  "empty_JsxOptions =
     \<lparr>jsx_runtime = None, jsx_development = None, jsx_pragma = None, jsx_pragmaFrag = None,
      jsx_importSource = None\<rparr>"

definition empty_TypeScriptOptions :: TypeScriptOptions where
  "empty_TypeScriptOptions = \<lparr>onlyRemoveTypeImports = None\<rparr>"

text \<open>
  Lines 300 to 330: the JSX part of the directive. \<open>x ??= {}\<close> keeps an object that
  is there and creates an empty one otherwise. The first component of the result holds
  the messages passed to \<open>ctx.warn\<close>.
\<close>

definition apply_jsx_settings ::
  "string \<Rightarrow> CompilerOptions \<Rightarrow> ResolvedOptions \<Rightarrow> string list \<times> ResolvedOptions" where
  "apply_jsx_settings lang co ro =
     (let j0 = (case resolvedOptions_jsx ro of None \<Rightarrow> empty_JsxOptions | Some j \<Rightarrow> j);
          j1 = (if truthy (jsxFactory co) then j0\<lparr>jsx_pragma := jsxFactory co\<rparr> else j0);
          j2 = (if truthy (jsxFragmentFactory co)
                then j1\<lparr>jsx_pragmaFrag := jsxFragmentFactory co\<rparr> else j1);
          j3 = (if truthy (jsxImportSource co)
                then j2\<lparr>jsx_importSource := jsxImportSource co\<rparr> else j2)
      in if jsx co = Some ''react-jsxdev'' then
           ([], ro\<lparr>resolvedOptions_jsx :=
                     Some (j3\<lparr>jsx_runtime := Some ''automatic'', jsx_development := Some True\<rparr>)\<rparr>)
         else if jsx co = Some ''react'' then
           ([], ro\<lparr>resolvedOptions_jsx := Some (j3\<lparr>jsx_runtime := Some ''classic''\<rparr>)\<rparr>)
         else if jsx co = Some ''react-jsx'' then
           ([], ro\<lparr>resolvedOptions_jsx := Some (j3\<lparr>jsx_runtime := Some ''automatic''\<rparr>)\<rparr>)
         else if jsx co = Some ''preserve'' then
           (if lang = ''tsx'' then [''The tsconfig jsx preserve is not supported by oxc'']
            else [],
            ro\<lparr>resolvedOptions_jsx := Some j3\<rparr>)
         else ([], ro\<lparr>resolvedOptions_jsx := Some j3\<rparr>))"

text \<open>Lines 340 to 371: the type-only import part of the directive.\<close>

definition apply_type_import_settings ::
  "CompilerOptions \<Rightarrow> ResolvedOptions \<Rightarrow> string list \<times> ResolvedOptions" where
  "apply_type_import_settings co ro =
     (let t0 = (case resolvedOptions_typescript ro of
                  None \<Rightarrow> empty_TypeScriptOptions | Some t \<Rightarrow> t)
      in if verbatimModuleSyntax co \<noteq> None then
           ([], ro\<lparr>resolvedOptions_typescript :=
                     Some (t0\<lparr>onlyRemoveTypeImports := verbatimModuleSyntax co\<rparr>)\<rparr>)
         else if preserveValueImports co \<noteq> None \<or> importsNotUsedAsValues co \<noteq> None then
           (let preserveValueImports' =
                  (case preserveValueImports co of None \<Rightarrow> False | Some b \<Rightarrow> b);
                importsNotUsedAsValues' =
                  (case importsNotUsedAsValues co of None \<Rightarrow> ''remove'' | Some m \<Rightarrow> m)
            in if preserveValueImports' = False \<and> importsNotUsedAsValues' = ''remove'' then
                 ([], ro\<lparr>resolvedOptions_typescript :=
                           Some (t0\<lparr>onlyRemoveTypeImports := Some True\<rparr>)\<rparr>)
               else if preserveValueImports' = True
                       \<and> (importsNotUsedAsValues' = ''preserve''
                            \<or> importsNotUsedAsValues' = ''error'') then
                 ([], ro\<lparr>resolvedOptions_typescript :=
                           Some (t0\<lparr>onlyRemoveTypeImports := Some False\<rparr>)\<rparr>)
               else
                 ([''preserveValueImports='' @ show_bool preserveValueImports'
                     @ '' + importsNotUsedAsValues='' @ importsNotUsedAsValues'
                     @ '' is not supported by oxc.''
                     @ ''Please migrate to the new verbatimModuleSyntax option.''],
                  ro))
         else ([], ro))"

text \<open>
  Lines 265 to 381: everything before the engine is called. The loader
  \<open>loadTsconfigJsonForFile\<close> is imported from \<open>./esbuild\<close> and is a parameter here; it
  returns the tsconfig and, possibly, the path of the file it came from, or throws.
  The \<open>catch\<close> block registers the settings file named by a parse error and throws the
  caught value again.
\<close>

definition resolve_directive ::
  "(string \<Rightarrow> ResolvedConfig option \<Rightarrow> thrown + Tsconfig \<times> string option)
     \<Rightarrow> string \<Rightarrow> OxcTransformOptions option \<Rightarrow> ResolvedConfig option \<Rightarrow> 'w option
     \<Rightarrow> 'w effect list \<times> (thrown + ResolvedOptions)" where
  "resolve_directive loadTsconfigJsonForFile filename options config watcher =
     (let lang = resolve_lang (supplied options_lang options) filename;
          resolvedOptions =
            \<lparr>resolvedOptions_sourcemap = spread_over True (supplied options_sourcemap options),
             resolvedOptions_jsx = supplied options_jsx options,
             resolvedOptions_typescript = supplied options_typescript options,
             resolvedOptions_lang = lang\<rparr>
      in if lang = ''ts'' \<or> lang = ''tsx'' then
           (case loadTsconfigJsonForFile filename config of
              Inr (loadedTsconfig, tsconfigFile) \<Rightarrow>
                (let watched =
                       (case (watcher, config) of
                          (Some w, Some c) \<Rightarrow>
                            if truthy tsconfigFile
                            then [EnsureWatchedFile w (the tsconfigFile) (config_root c)] else []
                        | _ \<Rightarrow> []);
                     loadedCompilerOptions =
                       (case compilerOptions loadedTsconfig of
                          None \<Rightarrow> empty_CompilerOptions | Some co \<Rightarrow> co);
                     (warned_jsx, ro1) = apply_jsx_settings lang loadedCompilerOptions resolvedOptions;
                     (warned_ts, ro2) = apply_type_import_settings loadedCompilerOptions ro1
                 in (watched @ map Warn warned_jsx @ map Warn warned_ts, Inr ro2))
            | Inl e \<Rightarrow>
                (case e of
                   TSConfckParseError message tsconfigFile \<Rightarrow>
                     (case (watcher, config) of
                        (Some w, Some c) \<Rightarrow>
                          if truthy tsconfigFile
                          then [EnsureWatchedFile w (the tsconfigFile) (config_root c)] else []
                      | _ \<Rightarrow> [])
                 | _ \<Rightarrow> [],
                 Inl e))
         else ([], Inr resolvedOptions))"

text \<open>
  The whole function. The engine \<open>transform\<close> and \<open>combineSourcemaps\<close> are imported and
  are parameters here.
\<close>

definition transformWithOxc ::
  "(string \<Rightarrow> ResolvedConfig option \<Rightarrow> thrown + Tsconfig \<times> string option)
     \<Rightarrow> (string \<Rightarrow> string \<Rightarrow> ResolvedOptions \<Rightarrow> TransformResult)
     \<Rightarrow> (string \<Rightarrow> SourceMap list \<Rightarrow> SourceMap)
     \<Rightarrow> string \<Rightarrow> string \<Rightarrow> OxcTransformOptions option \<Rightarrow> SourceMap option
     \<Rightarrow> ResolvedConfig option \<Rightarrow> 'w option
     \<Rightarrow> 'w effect list \<times> (thrown + TransformResult)" where
  "transformWithOxc loadTsconfigJsonForFile transform combineSourcemaps
       code filename options inMap config watcher =
     (case resolve_directive loadTsconfigJsonForFile filename options config watcher of
        (effects, Inl e) \<Rightarrow> (effects, Inl e)
      | (effects, Inr resolvedOptions) \<Rightarrow>
          (let result = transform filename code resolvedOptions
           in if 0 < length (result_errors result) then
                (effects, Inl (Error (result_errors result ! 0)))
              else
                (effects,
                 Inr (result\<lparr>result_map :=
                        (case (inMap, result_map result) of
                           (Some im, Some nextMap) \<Rightarrow>
                             Some (combineSourcemaps filename
                                     [nextMap\<lparr>sourcesContent := []\<rparr>, im])
                         | _ \<Rightarrow> result_map result)\<rparr>))))"

text \<open>
  The decision table of the specification for the strip-type-only-imports flag, in its
  own words: the modern flag decides when it is set; otherwise the legacy pair, with
  its defaults, decides, and combinations outside the table are unsupported.
\<close>

datatype strip_decision = Strip bool | Unsupported | Unset

definition strip_decision_table :: "CompilerOptions \<Rightarrow> strip_decision" where
  "strip_decision_table co =
     (case verbatimModuleSyntax co of
        Some b \<Rightarrow> Strip b
      | None \<Rightarrow>
          (case (preserveValueImports co, importsNotUsedAsValues co) of
             (None, None) \<Rightarrow> Unset
           | (p, m) \<Rightarrow>
               (let preserve = (case p of None \<Rightarrow> False | Some b \<Rightarrow> b);
                    mode = (case m of None \<Rightarrow> ''remove'' | Some v \<Rightarrow> v)
                in if \<not> preserve \<and> mode = ''remove'' then Strip True
                   else if preserve \<and> mode \<in> {''preserve'', ''error''} then Strip False
                   else Unsupported)))"

definition strip_flag :: "TypeScriptOptions option \<Rightarrow> bool option" where
  "strip_flag t = (case t of None \<Rightarrow> None | Some ts \<Rightarrow> onlyRemoveTypeImports ts)"

definition unsupported_warning :: "CompilerOptions \<Rightarrow> string" where
  "unsupported_warning co =
     ''preserveValueImports=''
     @ show_bool (case preserveValueImports co of None \<Rightarrow> False | Some b \<Rightarrow> b)
     @ '' + importsNotUsedAsValues=''
     @ (case importsNotUsedAsValues co of None \<Rightarrow> ''remove'' | Some v \<Rightarrow> v)
     @ '' is not supported by oxc.Please migrate to the new verbatimModuleSyntax option.''"

section \<open>Legacy option adapter (convertEsbuildConfigToOxcConfig)\<close>

text \<open>
  \<open>ESBuildOptions\<close>, as far as the adapter reads them. The filters \<open>include\<close> and
  \<open>exclude\<close> and the injected prologue are copied without being looked at. The
  \<open>sourcemap\<close> option of the older tool is a boolean or one of several mode names.
\<close>

datatype esbuild_sourcemap = SourcemapFlag bool | SourcemapMode string

record ESBuildOptions =
  esbuild_jsxInject :: "string option"
  esbuild_include :: "string option"
  esbuild_exclude :: "string option"
  esbuild_jsx :: "string option"
  esbuild_jsxDev :: "bool option"
  esbuild_jsxFactory :: "string option"
  esbuild_jsxFragment :: "string option"
  esbuild_jsxImportSource :: "string option"
  esbuild_loader :: "string option"
  esbuild_define :: "js_object option"
  esbuild_sourcemap :: "esbuild_sourcemap option"

record OxcOptions =
  oxc_jsxInject :: "string option"
  oxc_include :: "string option"
  oxc_exclude :: "string option"
  oxc_jsx :: JsxOptions
  oxc_lang :: "string option"
  oxc_define :: "js_object option"
  oxc_sourcemap :: "bool option"

text \<open>An optional \<open>sourcemap\<close> value inside a template literal.\<close>

definition show_sourcemap :: "esbuild_sourcemap option \<Rightarrow> string" where
  "show_sourcemap v =
     (case v of None \<Rightarrow> ''undefined''
      | Some (SourcemapFlag b) \<Rightarrow> show_bool b
      | Some (SourcemapMode m) \<Rightarrow> m)"

text \<open>
  The part both definitions of the adapter share but for the wording of one warning
  (lines 480 to 515 and 716 to 751): the JSX options. \<open>preposition\<close> is the word
  \<open>by\<close> in the first definition and \<open>at\<close> in the second.
\<close>

definition convert_jsx :: "string \<Rightarrow> ESBuildOptions \<Rightarrow> string list \<times> JsxOptions" where
  "convert_jsx preposition esbuildConfig =
     (let j0 = empty_JsxOptions;
          (warned, j1) =
            (if esbuild_jsx esbuildConfig = Some ''automatic'' then
               ([], j0\<lparr>jsx_runtime := Some ''automatic''\<rparr>)
             else if esbuild_jsx esbuildConfig = Some ''transform'' then
               ([], j0\<lparr>jsx_runtime := Some ''classic''\<rparr>)
             else if esbuild_jsx esbuildConfig = Some ''preserve'' then
               ([''The esbuild jsx preserve is not supported '' @ preposition @ '' oxc''], j0)
             else ([], j0));
          j2 = (if esbuild_jsxDev esbuildConfig = Some True
                then j1\<lparr>jsx_development := Some True\<rparr> else j1);
          j3 = (if truthy (esbuild_jsxFactory esbuildConfig)
                then j2\<lparr>jsx_pragma := esbuild_jsxFactory esbuildConfig\<rparr> else j2);
          j4 = (if truthy (esbuild_jsxFragment esbuildConfig)
                then j3\<lparr>jsx_pragmaFrag := esbuild_jsxFragment esbuildConfig\<rparr> else j3);
          j5 = (if truthy (esbuild_jsxImportSource esbuildConfig)
                then j4\<lparr>jsx_importSource := esbuild_jsxImportSource esbuildConfig\<rparr> else j4)
      in (warned, j5))"

text \<open>
  The first definition, lines 473 to 553. The result is the list of \<open>logger.warn\<close>
  messages, in order, and the returned options.
\<close>

definition convertEsbuildConfigToOxcConfig :: "ESBuildOptions \<Rightarrow> string list \<times> OxcOptions" where
  "convertEsbuildConfigToOxcConfig esbuildConfig =
     (let (warned_jsx, j) = convert_jsx ''by'' esbuildConfig;
          loader = esbuild_loader esbuildConfig;
          (warned_loader, lang) =
            (if truthy loader then
               (if the loader \<in> set [''js'', ''jsx'', ''ts'', ''tsx''] then ([], loader)
                else ([''The esbuild loader '' @ the loader @ '' is not supported by oxc''], None))
             else ([], None));
          (warned_sourcemap, sourcemap') =
            (case esbuild_sourcemap esbuildConfig of
               None \<Rightarrow> ([], None)
             | Some (SourcemapFlag b) \<Rightarrow> ([], Some b)
             | Some (SourcemapMode m) \<Rightarrow>
                 if m = ''external'' then ([], Some True)
                 else if m = ''linked'' then ([], None)
                 else ([''The esbuild sourcemap '' @ m @ '' is not supported by oxc''], None))
      in (warned_jsx @ warned_loader @ warned_sourcemap,
          \<lparr>oxc_jsxInject = esbuild_jsxInject esbuildConfig,
           oxc_include = esbuild_include esbuildConfig,
           oxc_exclude = esbuild_exclude esbuildConfig,
           oxc_jsx = j,
           oxc_lang = lang,
           oxc_define = esbuild_define esbuildConfig,
           oxc_sourcemap = sourcemap'\<rparr>))"

text \<open>
  The second definition of the same name in the same file, lines 709 to 785: the
  loader is looked up in \<open>['.js', '.jsx', '.ts', 'tsx']\<close>, and every \<open>sourcemap\<close> value
  other than \<open>true\<close> and \<open>false\<close>, the missing one included, takes the \<open>default\<close>
  branch of the \<open>switch\<close>.
\<close>

definition convertEsbuildConfigToOxcConfig_second ::
  "ESBuildOptions \<Rightarrow> string list \<times> OxcOptions" where
  "convertEsbuildConfigToOxcConfig_second esbuildConfig =
     (let (warned_jsx, j) = convert_jsx ''at'' esbuildConfig;
          loader = esbuild_loader esbuildConfig;
          (warned_loader, lang) =
            (if truthy loader then
               (if the loader \<in> set [''.js'', ''.jsx'', ''.ts'', ''tsx''] then ([], loader)
                else ([''The esbuild loader '' @ the loader @ '' is not supported at oxc''], None))
             else ([], None));
          (warned_sourcemap, sourcemap') =
            (case esbuild_sourcemap esbuildConfig of
               Some (SourcemapFlag b) \<Rightarrow> ([], Some b)
             | other \<Rightarrow>
                 ([''The esbuild sourcemap '' @ show_sourcemap other @ '' is not supported at oxc''],
                  None))
      in (warned_jsx @ warned_loader @ warned_sourcemap,
          \<lparr>oxc_jsxInject = esbuild_jsxInject esbuildConfig,
           oxc_include = esbuild_include esbuildConfig,
           oxc_exclude = esbuild_exclude esbuildConfig,
           oxc_jsx = j,
           oxc_lang = lang,
           oxc_define = esbuild_define esbuildConfig,
           oxc_sourcemap = sourcemap'\<rparr>))"

text \<open>The object literal \<open>{}\<close> as \<open>ESBuildOptions\<close>.\<close>

definition no_esbuild_options :: ESBuildOptions where
  "no_esbuild_options =
     \<lparr>esbuild_jsxInject = None, esbuild_include = None, esbuild_exclude = None,
      esbuild_jsx = None, esbuild_jsxDev = None, esbuild_jsxFactory = None,
      esbuild_jsxFragment = None, esbuild_jsxImportSource = None, esbuild_loader = None,
      esbuild_define = None, esbuild_sourcemap = None\<rparr>"

text \<open>Settings and an engine for examples.\<close>

definition example_legacy_tsconfig :: Tsconfig where
  "example_legacy_tsconfig =
     \<lparr>compilerOptions =
        Some (empty_CompilerOptions\<lparr>preserveValueImports := Some True,
                                     importsNotUsedAsValues := Some ''remove''\<rparr>)\<rparr>"

definition example_engine :: "string list \<Rightarrow> string \<Rightarrow> string \<Rightarrow> ResolvedOptions \<Rightarrow> TransformResult" where
  "example_engine diagnostics filename code resolvedOptions =
     \<lparr>result_code = code, result_map = None, result_errors = diagnostics\<rparr>"

section \<open>Properties of the Hook Scheduler\<close>

lemma sort_invariant:
  "foldl (sort_step hookName)
     \<lparr>sortedPlugins = A @ B @ C, pre = length A, normal = length B, post = length C\<rparr> plugins
   = \<lparr>sortedPlugins = (A @ filter (pre_tier hookName) plugins)
                       @ (B @ filter (normal_tier hookName) plugins)
                       @ (C @ filter (post_tier hookName) plugins),
      pre = length (A @ filter (pre_tier hookName) plugins),
      normal = length (B @ filter (normal_tier hookName) plugins),
      post = length (C @ filter (post_tier hookName) plugins)\<rparr>"
proof (induction plugins arbitrary: A B C)
  case Nil
  then show ?case by simp
next
  case (Cons p ps)
  show ?case
  proof (cases "hooks p hookName")
    case Falsy
    then have "sort_step hookName \<lparr>sortedPlugins = A @ B @ C, pre = length A, normal = length B, post = length C\<rparr> p
      = \<lparr>sortedPlugins = A @ B @ C, pre = length A, normal = length B, post = length C\<rparr>"
      by (simp add: sort_step_def)
    moreover from Falsy have "\<not> pre_tier hookName p" "\<not> normal_tier hookName p" "\<not> post_tier hookName p"
      by (simp_all add: pre_tier_def post_tier_def normal_tier_def declares_order_def implements_hook_def)
    ultimately show ?thesis using Cons.IH[of A B C] by simp
  next
    case (Bare h)
    then have "sort_step hookName \<lparr>sortedPlugins = A @ B @ C, pre = length A, normal = length B, post = length C\<rparr> p
      = \<lparr>sortedPlugins = A @ (B @ [p]) @ C, pre = length A, normal = length (B @ [p]), post = length C\<rparr>"
      by (simp add: sort_step_def splice_def)
    moreover from Bare have "\<not> pre_tier hookName p" "normal_tier hookName p" "\<not> post_tier hookName p"
      by (simp_all add: pre_tier_def post_tier_def normal_tier_def declares_order_def implements_hook_def)
    ultimately show ?thesis using Cons.IH[of A "B @ [p]" C] by simp
  next
    case (ObjectHook ord h)
    let ?s = "\<lparr>sortedPlugins = A @ B @ C, pre = length A, normal = length B, post = length C\<rparr>"
    consider (is_pre) "ord = Some ''pre''" | (is_post) "ord = Some ''post''"
      | (other) "ord \<noteq> Some ''pre''" "ord \<noteq> Some ''post''"
      by blast
    then show ?thesis
    proof cases
      case is_pre
      with ObjectHook have "sort_step hookName ?s p
        = \<lparr>sortedPlugins = (A @ [p]) @ B @ C, pre = length (A @ [p]), normal = length B, post = length C\<rparr>"
        by (simp add: sort_step_def splice_def)
      moreover from ObjectHook is_pre
      have "pre_tier hookName p" "\<not> normal_tier hookName p" "\<not> post_tier hookName p"
        by (simp_all add: pre_tier_def post_tier_def normal_tier_def declares_order_def)
      ultimately show ?thesis using Cons.IH[of "A @ [p]" B C] by simp
    next
      case is_post
      with ObjectHook have "sort_step hookName ?s p
        = \<lparr>sortedPlugins = A @ B @ (C @ [p]), pre = length A, normal = length B, post = length (C @ [p])\<rparr>"
        by (simp add: sort_step_def splice_def)
      moreover from ObjectHook is_post
      have "\<not> pre_tier hookName p" "\<not> normal_tier hookName p" "post_tier hookName p"
        by (simp_all add: pre_tier_def post_tier_def normal_tier_def declares_order_def)
      ultimately show ?thesis using Cons.IH[of A B "C @ [p]"] by simp
    next
      case other
      with ObjectHook have "sort_step hookName ?s p
        = \<lparr>sortedPlugins = A @ (B @ [p]) @ C, pre = length A, normal = length (B @ [p]), post = length C\<rparr>"
        by (simp add: sort_step_def splice_def)
      moreover from ObjectHook other
      have "\<not> pre_tier hookName p" "normal_tier hookName p" "\<not> post_tier hookName p"
        by (auto simp add: pre_tier_def post_tier_def normal_tier_def declares_order_def
            implements_hook_def split: option.splits)
      ultimately show ?thesis using Cons.IH[of A "B @ [p]" C] by simp
    qed
  qed
qed

lemma tiers_disjoint:
  "\<not> (pre_tier h p \<and> post_tier h p)" "\<not> (pre_tier h p \<and> normal_tier h p)"
  "\<not> (normal_tier h p \<and> post_tier h p)"
  by (auto simp add: pre_tier_def post_tier_def normal_tier_def declares_order_def
      split: hook_value.splits option.splits)

lemma tiers_cover:
  "implements_hook h p = (pre_tier h p \<or> normal_tier h p \<or> post_tier h p)"
  by (auto simp add: pre_tier_def post_tier_def normal_tier_def declares_order_def
      implements_hook_def split: hook_value.splits option.splits)

lemma mset_three_buffers:
  "mset (three_buffer_partition h ps) = mset (filter (implements_hook h) ps)"
proof (induction ps)
  case Nil
  then show ?case by (simp add: three_buffer_partition_def)
next
  case (Cons p ps)
  then show ?case
    using tiers_disjoint[of h p] tiers_cover[of h p]
    by (auto simp add: three_buffer_partition_def)
qed

lemma filter_three_buffers:
  "filter (pre_tier h) (three_buffer_partition h ps) = filter (pre_tier h) ps"
  "filter (normal_tier h) (three_buffer_partition h ps) = filter (normal_tier h) ps"
  "filter (post_tier h) (three_buffer_partition h ps) = filter (post_tier h) ps"
proof -
  have none: "filter (\<lambda>x. normal_tier h x \<and> pre_tier h x) ps = []"
    "filter (\<lambda>x. post_tier h x \<and> pre_tier h x) ps = []"
    "filter (\<lambda>x. pre_tier h x \<and> normal_tier h x) ps = []"
    "filter (\<lambda>x. post_tier h x \<and> normal_tier h x) ps = []"
    "filter (\<lambda>x. pre_tier h x \<and> post_tier h x) ps = []"
    "filter (\<lambda>x. normal_tier h x \<and> post_tier h x) ps = []"
    using tiers_disjoint[of h] by (auto simp add: filter_empty_conv)
  show "filter (pre_tier h) (three_buffer_partition h ps) = filter (pre_tier h) ps"
    "filter (normal_tier h) (three_buffer_partition h ps) = filter (normal_tier h) ps"
    "filter (post_tier h) (three_buffer_partition h ps) = filter (post_tier h) ps"
    by (simp_all add: three_buffer_partition_def none)
qed

lemma sorted_constant_rank: "(\<And>x. x \<in> set xs \<Longrightarrow> f x = (c::nat)) \<Longrightarrow> sorted (map f xs)"
  by (induction xs) auto

lemma sorted_three_buffers: "sorted (map (tier_rank h) (three_buffer_partition h ps))"
proof -
  have "sorted (map (tier_rank h) (filter (pre_tier h) ps))"
    by (rule sorted_constant_rank[where c = 0]) (simp add: tier_rank_def)
  moreover have "sorted (map (tier_rank h) (filter (normal_tier h) ps))"
    by (rule sorted_constant_rank[where c = 1]) (simp add: tier_rank_def normal_tier_def)
  moreover have "sorted (map (tier_rank h) (filter (post_tier h) ps))"
    using tiers_disjoint(1)[of h]
    by (intro sorted_constant_rank[where c = 2]) (auto simp add: tier_rank_def)
  ultimately show ?thesis
    using tiers_disjoint[of h]
    by (auto simp add: three_buffer_partition_def sorted_append tier_rank_def)
qed

text \<open>
  Claim C1. For every plugin list and every hook name, \<open>getSortedPluginsByHook\<close>
  returns exactly the plugins whose value for the hook is truthy (each as often as it
  stands in the input), the splice-based single pass equals the three-buffer stable
  partition \<open>pre @ normal @ post\<close>, tiers appear in the order pre, normal, post, and
  within each tier the plugins keep their relative order of the input list.
\<close>

theorem getSortedPluginsByHook_stable_partition:
  "getSortedPluginsByHook hookName plugins = three_buffer_partition hookName plugins
   \<and> mset (getSortedPluginsByHook hookName plugins)
       = mset (filter (implements_hook hookName) plugins)
   \<and> sorted (map (tier_rank hookName) (getSortedPluginsByHook hookName plugins))
   \<and> filter (pre_tier hookName) (getSortedPluginsByHook hookName plugins)
       = filter (pre_tier hookName) plugins
   \<and> filter (normal_tier hookName) (getSortedPluginsByHook hookName plugins)
       = filter (normal_tier hookName) plugins
   \<and> filter (post_tier hookName) (getSortedPluginsByHook hookName plugins)
       = filter (post_tier hookName) plugins"
proof -
  have "getSortedPluginsByHook hookName plugins = three_buffer_partition hookName plugins"
    using sort_invariant[of hookName "[]" "[]" "[]" plugins]
    by (simp add: getSortedPluginsByHook_def three_buffer_partition_def)
  then show ?thesis
    by (simp only: mset_three_buffers filter_three_buffers sorted_three_buffers simp_thms)
qed

section \<open>Properties of resolveBuildOptions\<close>

lemma ensure_ending_slash_append:
  "ensure_ending_slash s = (if s = [] \<or> last s = CHR ''/'' then s else s @ ''/'')"
  by (simp add: ensure_ending_slash_def)

lemma trailing_slashes_snoc:
  "trailing_slashes (s @ [c]) = (if c = CHR ''/'' then Suc (trailing_slashes s) else 0)"
  by (simp add: trailing_slashes_def)

lemma trailing_slashes_last:
  "s \<noteq> [] \<Longrightarrow> (0 < trailing_slashes s) = (last s = CHR ''/'')"
  by (cases s rule: rev_cases) (simp_all add: trailing_slashes_snoc)

lemma resolveBuildOptions_base:
  "resolveBuildOptions raw
     = (case spread_property ''/'' (own_property base raw) of
          None \<Rightarrow> Inl TypeError
        | Some b \<Rightarrow>
            Inr \<lparr>resolved_entry = spread_property ''index.html'' (own_property entry raw),
                 resolved_base = Some (ensure_ending_slash b),
                 resolved_outDir = spread_property ''dist'' (own_property outDir raw),
                 resolved_assetsDir = spread_property ''assets'' (own_property assetsDir raw),
                 resolved_assetsInlineLimit =
                   spread_property 4096 (own_property assetsInlineLimit raw),
                 resolved_cssCodeSplit = spread_property True (own_property cssCodeSplit raw),
                 resolved_sourcemap =
                   spread_property (SourcemapBool False) (own_property sourcemap raw),
                 resolved_minify = spread_property MinifyTerser (own_property minify raw),
                 resolved_terserOptions = spread_property [] (own_property terserOptions raw),
                 resolved_ssr = spread_property False (own_property ssr raw),
                 resolved_rollupOptions = spread_property [] (own_property rollupOptions raw),
                 resolved_write = spread_property True (own_property write_bundle raw),
                 resolved_emitIndex = spread_property True (own_property emitIndex raw),
                 resolved_emitAssets = spread_property True (own_property emitAssets raw),
                 resolved_emitManifest = spread_property False (own_property emitManifest raw)\<rparr>)"
  by (simp add: resolveBuildOptions_def Let_def split: option.splits)

text \<open>
  Claim C6, as amended. When the base in effect (the supplied one, or the default \<open>/\<close>)
  is not empty, the resolved base is that base if it already ends in \<open>/\<close> and that base
  followed by one \<open>/\<close> otherwise; it ends in \<open>/\<close>, and it ends in as many separators as
  the input did, but at least one. Separators already present are never collapsed.
\<close>

theorem resolved_base_ending_slash:
  assumes "spread_property ''/'' (own_property base raw) = Some b" and "b \<noteq> []"
  shows "case resolveBuildOptions raw of
           Inl failure \<Rightarrow> False
         | Inr resolved \<Rightarrow>
             resolved_base resolved = Some (if last b = CHR ''/'' then b else b @ ''/'')
             \<and> last (the (resolved_base resolved)) = CHR ''/''
             \<and> trailing_slashes (the (resolved_base resolved)) = max 1 (trailing_slashes b)"
proof (cases "last b = CHR ''/''")
  case True
  with assms trailing_slashes_last[of b] show ?thesis
    by (simp add: resolveBuildOptions_base ensure_ending_slash_append max_def)
next
  case False
  with assms trailing_slashes_last[of b] show ?thesis
    by (simp add: resolveBuildOptions_base ensure_ending_slash_append trailing_slashes_snoc)
qed

theorem resolved_base_ending_slash_witness:
  "map_sum id resolved_base (resolveBuildOptions (Some (no_options\<lparr>base := Value ''/app''\<rparr>)))
     = Inr (Some ''/app/'')
   \<and> map_sum id resolved_base (resolveBuildOptions (Some (no_options\<lparr>base := Value ''/app/''\<rparr>)))
     = Inr (Some ''/app/'')
   \<and> map_sum id (trailing_slashes \<circ> the \<circ> resolved_base)
        (resolveBuildOptions (Some (no_options\<lparr>base := Value ''/app''\<rparr>))) = Inr 1"
proof -
  have a: "spread_property ''/'' (own_property base (Some (no_options\<lparr>base := Value ''/app''\<rparr>)))
      = Some ''/app''"
    and b: "spread_property ''/'' (own_property base (Some (no_options\<lparr>base := Value ''/app/''\<rparr>)))
      = Some ''/app/''"
    by (simp_all add: spread_property_def own_property_def)
  have t: "trailing_slashes ''/app'' = 0"
    by (simp add: trailing_slashes_def)
  from resolved_base_ending_slash[OF a] resolved_base_ending_slash[OF b] t show ?thesis
    by (auto split: sum.splits)
qed

text \<open>
  Claim C6 as stated fails: a base that ends in two separators is returned as it is.
\<close>

theorem resolved_base_two_slashes_counterexample:
  "map_sum id resolved_base (resolveBuildOptions (Some (no_options\<lparr>base := Value ''/app//''\<rparr>)))
     = Inr (Some ''/app//'')
   \<and> trailing_slashes ''/app//'' = 2"
  by (simp add: resolveBuildOptions_base ensure_ending_slash_def spread_property_def
      own_property_def trailing_slashes_def)

lemma resolved_base_empty:
  "map_sum id resolved_base (resolveBuildOptions (Some (no_options\<lparr>base := Value ''''\<rparr>)))
     = Inr (Some '''')"
  by (simp add: resolveBuildOptions_base ensure_ending_slash_def spread_property_def
      own_property_def)

text \<open>
  What the function does for every argument. It throws exactly when \<open>base\<close> is carried
  with the value \<open>undefined\<close>. Otherwise every property other than \<open>base\<close> of the result is
  the documented default when the argument lacks the property and what the argument
  carries for it otherwise, \<open>undefined\<close> included; \<open>base\<close> is the only property that may
  differ from what the caller supplied, and then only by the appended separator.
\<close>

lemma resolveBuildOptions_frame:
  "case resolveBuildOptions raw of
     Inl failure \<Rightarrow> failure = TypeError \<and> own_property base raw = Undefined
   | Inr r \<Rightarrow>
       resolved_entry r = (case own_property entry raw of
          Absent \<Rightarrow> Some ''index.html'' | Undefined \<Rightarrow> None | Value v \<Rightarrow> Some v)
     \<and> resolved_outDir r = (case own_property outDir raw of
          Absent \<Rightarrow> Some ''dist'' | Undefined \<Rightarrow> None | Value v \<Rightarrow> Some v)
     \<and> resolved_assetsDir r = (case own_property assetsDir raw of
          Absent \<Rightarrow> Some ''assets'' | Undefined \<Rightarrow> None | Value v \<Rightarrow> Some v)
     \<and> resolved_assetsInlineLimit r = (case own_property assetsInlineLimit raw of
          Absent \<Rightarrow> Some 4096 | Undefined \<Rightarrow> None | Value v \<Rightarrow> Some v)
     \<and> resolved_cssCodeSplit r = (case own_property cssCodeSplit raw of
          Absent \<Rightarrow> Some True | Undefined \<Rightarrow> None | Value v \<Rightarrow> Some v)
     \<and> resolved_sourcemap r = (case own_property sourcemap raw of
          Absent \<Rightarrow> Some (SourcemapBool False) | Undefined \<Rightarrow> None | Value v \<Rightarrow> Some v)
     \<and> resolved_minify r = (case own_property minify raw of
          Absent \<Rightarrow> Some MinifyTerser | Undefined \<Rightarrow> None | Value v \<Rightarrow> Some v)
     \<and> resolved_terserOptions r = (case own_property terserOptions raw of
          Absent \<Rightarrow> Some [] | Undefined \<Rightarrow> None | Value v \<Rightarrow> Some v)
     \<and> resolved_ssr r = (case own_property ssr raw of
          Absent \<Rightarrow> Some False | Undefined \<Rightarrow> None | Value v \<Rightarrow> Some v)
     \<and> resolved_rollupOptions r = (case own_property rollupOptions raw of
          Absent \<Rightarrow> Some [] | Undefined \<Rightarrow> None | Value v \<Rightarrow> Some v)
     \<and> resolved_write r = (case own_property write_bundle raw of
          Absent \<Rightarrow> Some True | Undefined \<Rightarrow> None | Value v \<Rightarrow> Some v)
     \<and> resolved_emitIndex r = (case own_property emitIndex raw of
          Absent \<Rightarrow> Some True | Undefined \<Rightarrow> None | Value v \<Rightarrow> Some v)
     \<and> resolved_emitAssets r = (case own_property emitAssets raw of
          Absent \<Rightarrow> Some True | Undefined \<Rightarrow> None | Value v \<Rightarrow> Some v)
     \<and> resolved_emitManifest r = (case own_property emitManifest raw of
          Absent \<Rightarrow> Some False | Undefined \<Rightarrow> None | Value v \<Rightarrow> Some v)
     \<and> resolved_base r = (case own_property base raw of
          Absent \<Rightarrow> Some ''/''
        | Undefined \<Rightarrow> None
        | Value v \<Rightarrow> Some (if v = [] \<or> last v = CHR ''/'' then v else v @ ''/''))"
  by (cases "own_property base raw")
    (simp_all add: resolveBuildOptions_base spread_property_def ensure_ending_slash_append)

text \<open>
  Claim C10 fails on the code for an argument that carries a property with the value
  \<open>undefined\<close>. With \<open>base: undefined\<close> the call throws and returns no options at all;
  with \<open>outDir: undefined\<close> the result has \<open>undefined\<close> where the documentation and the
  declared return type promise the default \<open>dist\<close>.
\<close>

theorem resolveBuildOptions_undefined_property:
  "resolveBuildOptions (Some (no_options\<lparr>base := Undefined\<rparr>)) = Inl TypeError
   \<and> map_sum id resolved_outDir (resolveBuildOptions (Some (no_options\<lparr>outDir := Undefined\<rparr>)))
       = Inr None
   \<and> map_sum id resolved_outDir (resolveBuildOptions (Some no_options)) = Inr (Some ''dist'')
   \<and> map_sum id resolved_base (resolveBuildOptions (Some no_options)) = Inr (Some ''/'')"
  by (simp add: resolveBuildOptions_base spread_property_def own_property_def no_options_def
      ensure_ending_slash_def)

section \<open>Properties of the build session\<close>

lemma active_Nil: "active [] = 0"
  by (simp add: active_def)

lemma active_snoc:
  "active (evs @ [e]) = active evs + (if e = Enter then 1 else if is_exit e then - 1 else 0)"
  by (cases e) (simp_all add: active_def is_exit_def)

lemma active_Cons:
  "active (e # evs) = (if e = Enter then 1 else if is_exit e then - 1 else 0) + active evs"
  by (cases e) (simp_all add: active_def is_exit_def)

lemma in_flight_append:
  "in_flight n (xs @ ys) = (in_flight n xs \<and> in_flight (nat (int n + active xs)) ys)"
proof (induction xs arbitrary: n)
  case Nil
  then show ?case by (simp add: active_Nil)
next
  case (Cons e xs)
  show ?case
  proof (cases e)
    case Enter
    have "nat (int (Suc n) + active xs) = nat (int n + active (e # xs))"
      using Enter by (simp add: active_Cons)
    moreover have "in_flight n ((e # xs) @ ys) = in_flight (Suc n) (xs @ ys)"
      and "in_flight n (e # xs) = in_flight (Suc n) xs"
      using Enter by simp_all
    ultimately show ?thesis using Cons.IH[of "Suc n"] by (simp only:)
  next
    case (Push b)
    then have "nat (int n + active xs) = nat (int n + active (e # xs))"
      by (simp add: active_Cons is_exit_def)
    moreover have "in_flight n ((e # xs) @ ys) = (0 < n \<and> in_flight n (xs @ ys))"
      and "in_flight n (e # xs) = (0 < n \<and> in_flight n xs)"
      using Push by simp_all
    ultimately show ?thesis using Cons.IH[of n] by (simp only: conj_assoc)
  next
    case (Exit outcome)
    show ?thesis
    proof (cases "0 < n")
      case True
      then have "nat (int (n - 1) + active xs) = nat (int n + active (e # xs))"
        using Exit by (simp add: active_Cons is_exit_def)
      moreover have "in_flight n ((e # xs) @ ys) = in_flight (n - 1) (xs @ ys)"
        and "in_flight n (e # xs) = in_flight (n - 1) xs"
        using Exit True by simp_all
      ultimately show ?thesis using Cons.IH[of "n - 1"] by (simp only:)
    next
      case False
      with Exit show ?thesis by simp
    qed
  qed
qed

lemma in_flight_active_nonneg: "in_flight n evs \<Longrightarrow> 0 \<le> int n + active evs"
proof (induction evs arbitrary: n)
  case Nil
  then show ?case by (simp add: active_Nil)
next
  case (Cons e evs)
  show ?case
  proof (cases e)
    case Enter
    with Cons.prems Cons.IH[of "Suc n"] show ?thesis by (simp add: active_Cons)
  next
    case (Push b)
    with Cons.prems Cons.IH[of n] show ?thesis by (simp add: active_Cons is_exit_def)
  next
    case (Exit outcome)
    with Cons.prems Cons.IH[of "n - 1"] show ?thesis by (simp add: active_Cons is_exit_def)
  qed
qed

lemma run_session_snoc: "run_session (evs @ [e]) = session_step (run_session evs) e"
  by (simp add: run_session_def)

lemma counter_step:
  "parallelCallCounts (session_step s e)
     = parallelCallCounts s + (if e = Enter then 1 else if is_exit e then - 1 else 0)"
  by (cases e) (simp_all add: build_finally_def Let_def is_exit_def)

lemma counter_tracks_active: "parallelCallCounts (run_session evs) = active evs"
proof (induction evs rule: rev_induct)
  case Nil
  then show ?case by (simp add: run_session_def session_init_def active_Nil)
next
  case (snoc e evs)
  then show ?case by (simp only: run_session_snoc counter_step active_snoc)
qed

lemma returns_to_zero_snoc:
  "returns_to_zero (evs @ [e])
     = returns_to_zero evs @ (if is_exit e \<and> active (evs @ [e]) = 0 then [length evs] else [])"
proof -
  have "filter (\<lambda>k. is_exit ((evs @ [e]) ! k) \<and> active (take (Suc k) (evs @ [e])) = 0) [0..<length evs]
      = filter (\<lambda>k. is_exit (evs ! k) \<and> active (take (Suc k) evs) = 0) [0..<length evs]"
    by (rule filter_cong) (auto simp add: nth_append)
  then show ?thesis by (simp add: returns_to_zero_def)
qed

lemma teardowns_step:
  "teardowns (session_step s e)
     = teardowns s + (if is_exit e \<and> parallelCallCounts (session_step s e) \<le> 0 then 1 else 0)"
  by (cases e) (simp_all add: build_finally_def Let_def is_exit_def)

lemma teardowns_count:
  "interleaving evs \<Longrightarrow> teardowns (run_session evs) = length (returns_to_zero evs)"
proof (induction evs rule: rev_induct)
  case Nil
  then show ?case by (simp add: run_session_def session_init_def returns_to_zero_def)
next
  case (snoc e evs)
  from snoc.prems have pre: "interleaving evs"
    by (simp add: interleaving_def in_flight_append)
  from snoc.prems have "0 \<le> active (evs @ [e])"
    using in_flight_active_nonneg[of 0 "evs @ [e]"] by (simp add: interleaving_def)
  then have "(parallelCallCounts (run_session (evs @ [e])) \<le> 0) = (active (evs @ [e]) = 0)"
    by (simp only: counter_tracks_active) arith
  with snoc.IH[OF pre] show ?case
    by (simp add: returns_to_zero_snoc teardowns_step run_session_snoc del: session_step.simps)
qed

lemma session_step_effect:
  assumes "0 \<le> parallelCallCounts (session_step s e)"
  shows "if is_exit e \<and> parallelCallCounts (session_step s e) = 0
         then paralellBuilds (session_step s e) = []
            \<and> closed (session_step s e) = closed s @ paralellBuilds s
            \<and> teardowns (session_step s e) = Suc (teardowns s)
         else closed (session_step s e) = closed s
            \<and> teardowns (session_step s e) = teardowns s
            \<and> paralellBuilds (session_step s e)
                = paralellBuilds s @ (case e of Push b \<Rightarrow> [b] | _ \<Rightarrow> [])"
proof (cases e)
  case Enter
  then show ?thesis by (simp add: is_exit_def)
next
  case (Push b)
  then show ?thesis by (simp add: is_exit_def)
next
  case (Exit outcome)
  with assms have "0 \<le> parallelCallCounts s - 1"
    by (simp add: build_finally_def Let_def split: if_splits)
  with Exit show ?thesis
    by (simp add: is_exit_def build_finally_def Let_def)
qed

text \<open>
  Claim C3. For every interleaving of \<open>build()\<close> invocations: the counter equals the
  number of invocations in flight, it goes up by one at each entry and down by one at
  each exit (returned or thrown alike) and never below zero; a step closes the handles
  accumulated so far and empties the array exactly when it is an exit that brings the
  counter to zero, and leaves closed handles and array content alone otherwise; the
  number of times the array was emptied is the number of returns to zero.
\<close>

theorem build_session_lifecycle:
  assumes "interleaving evs"
  shows "teardowns (run_session evs) = length (returns_to_zero evs)
       \<and> (\<forall>k<length evs.
            let s = run_session (take k evs); e = evs ! k; s' = run_session (take (Suc k) evs)
            in parallelCallCounts s = active (take k evs)
             \<and> 0 \<le> parallelCallCounts s'
             \<and> parallelCallCounts s'
                 = parallelCallCounts s + (if e = Enter then 1 else if is_exit e then - 1 else 0)
             \<and> (if is_exit e \<and> parallelCallCounts s' = 0
                then paralellBuilds s' = []
                   \<and> closed s' = closed s @ paralellBuilds s
                   \<and> teardowns s' = Suc (teardowns s)
                else closed s' = closed s
                   \<and> teardowns s' = teardowns s
                   \<and> paralellBuilds s' = paralellBuilds s @ (case e of Push b \<Rightarrow> [b] | _ \<Rightarrow> [])))"
proof (intro conjI allI impI)
  show "teardowns (run_session evs) = length (returns_to_zero evs)"
    using assms by (rule teardowns_count)
next
  fix k assume k: "k < length evs"
  let ?xs = "take k evs" and ?e = "evs ! k"
  from k have split: "take (Suc k) evs = ?xs @ [?e]"
    by (simp add: take_Suc_conv_app_nth)
  have "in_flight 0 (take (Suc k) evs @ drop (Suc k) evs)"
    using assms by (simp add: interleaving_def)
  then have "in_flight 0 (take (Suc k) evs)"
    by (simp only: in_flight_append)
  then have nonneg: "0 \<le> active (?xs @ [?e])"
    using in_flight_active_nonneg[of 0 "take (Suc k) evs"] by (simp add: split)
  have run: "run_session (take (Suc k) evs) = session_step (run_session ?xs) ?e"
    by (simp only: split run_session_snoc)
  have c: "0 \<le> parallelCallCounts (session_step (run_session ?xs) ?e)"
    using nonneg by (simp only: run[symmetric] split counter_tracks_active)
  show "let s = run_session (take k evs); e = evs ! k; s' = run_session (take (Suc k) evs)
            in parallelCallCounts s = active (take k evs)
             \<and> 0 \<le> parallelCallCounts s'
             \<and> parallelCallCounts s'
                 = parallelCallCounts s + (if e = Enter then 1 else if is_exit e then - 1 else 0)
             \<and> (if is_exit e \<and> parallelCallCounts s' = 0
                then paralellBuilds s' = []
                   \<and> closed s' = closed s @ paralellBuilds s
                   \<and> teardowns s' = Suc (teardowns s)
                else closed s' = closed s
                   \<and> teardowns s' = teardowns s
                   \<and> paralellBuilds s' = paralellBuilds s @ (case e of Push b \<Rightarrow> [b] | _ \<Rightarrow> []))"
    unfolding Let_def run
    using c session_step_effect[OF c] counter_step[of "run_session ?xs" ?e]
      counter_tracks_active[of ?xs]
    by (intro conjI) (simp_all only:)
qed

theorem build_session_lifecycle_witness:
  "interleaving [Enter, Enter, Push (1::nat), Exit Threw, Push 2, Exit Returned]
   \<and> teardowns (run_session [Enter, Enter, Push (1::nat), Exit Threw, Push 2, Exit Returned]) = 1
   \<and> returns_to_zero [Enter, Enter, Push (1::nat), Exit Threw, Push 2, Exit Returned] = [5]
   \<and> paralellBuilds (run_session [Enter, Enter, Push (1::nat), Exit Threw]) = [1]
   \<and> closed (run_session [Enter, Enter, Push (1::nat), Exit Threw]) = []
   \<and> closed (run_session [Enter, Enter, Push (1::nat), Exit Threw, Push 2, Exit Returned]) = [1, 2]
   \<and> paralellBuilds (run_session [Enter, Enter, Push (1::nat), Exit Threw, Push 2, Exit Returned]) = []"
proof -
  have w: "interleaving [Enter, Enter, Push (1::nat), Exit Threw, Push 2, Exit Returned]"
    by (simp add: interleaving_def)
  have r: "returns_to_zero [Enter, Enter, Push (1::nat), Exit Threw, Push 2, Exit Returned] = [5]"
    by (simp add: returns_to_zero_def upt_rec[of _ "numeral n" for n] upt_rec[of _ "Suc n" for n]  is_exit_def active_def)
  show ?thesis
    using w r build_session_lifecycle[OF w]
    by (simp add: run_session_def session_init_def build_finally_def)
qed

section \<open>Properties of the Pipeline Assembler\<close>

lemma filter_Boolean_append: "filter_Boolean (xs @ ys) = filter_Boolean xs @ filter_Boolean ys"
  by (induction xs) (simp_all split: option.splits)

lemma filter_Boolean_supplied: "filter_Boolean (map (\<lambda>p. Some (f p)) ps) = map f ps"
  by (induction ps) simp_all

lemma not_server_only [simp]:
  "\<not> server_only OptimizedDepsPlugin" "\<not> server_only MetadataPlugin"
  "\<not> server_only WatchPackageDataPlugin" "\<not> server_only PreAliasPlugin"
  "\<not> server_only NativeAliasPlugin" "\<not> server_only AliasPlugin"
  "\<not> server_only (Supplied p)" "\<not> server_only (NativeModulePreloadPolyfillPlugin skip)"
  "\<not> server_only ModulePreloadPolyfillPlugin" "\<not> server_only ResolvePlugin"
  "\<not> server_only HtmlInlineProxyPlugin" "\<not> server_only CssPlugin"
  "\<not> server_only NativeTransformPlugin" "\<not> server_only EsbuildPlugin"
  "\<not> server_only NativeJsonPlugin" "\<not> server_only JsonPlugin"
  "\<not> server_only NativeWasmHelperPlugin" "\<not> server_only WasmHelperPlugin"
  "\<not> server_only WebWorkerPlugin" "\<not> server_only AssetPlugin"
  "\<not> server_only NativeWasmFallbackPlugin" "\<not> server_only WasmFallbackPlugin"
  "\<not> server_only DefinePlugin" "\<not> server_only CssPostPlugin"
  "\<not> server_only BuildHtmlPlugin" "\<not> server_only WorkerImportMetaUrlPlugin"
  "\<not> server_only AssetImportMetaUrlPlugin" "\<not> server_only NativeDynamicImportVarsPlugin"
  "\<not> server_only DynamicImportVarsPlugin" "\<not> server_only NativeImportGlobPlugin"
  "\<not> server_only ImportGlobPlugin"
  by (simp_all add: server_only_def)

lemma no_server_only_supplied: "\<not> list_ex server_only (map Supplied ps)"
  by (induction ps) simp_all

lemma resolvePlugins_split:
  "\<exists>front. \<not> list_ex server_only front \<and>
     resolvePlugins dep rbp config prePlugins normalPlugins postPlugins
       = front @ (if config_command config = ''build'' then []
                  else [ClientInjectionsPlugin, CssAnalysisPlugin, ImportAnalysisPlugin])"
proof -
  have tail: "filter_Boolean
        (if config_command config = ''build'' then []
         else [Some ClientInjectionsPlugin, Some CssAnalysisPlugin, Some ImportAnalysisPlugin])
      = (if config_command config = ''build'' then []
         else [ClientInjectionsPlugin, CssAnalysisPlugin, ImportAnalysisPlugin :: 'a stage])"
    by simp
  show ?thesis
    unfolding resolvePlugins_def Let_def filter_Boolean_append tail
    apply (simp only: append_assoc[symmetric])
    apply (rule exI)
    apply (rule conjI[OF _ refl])
    apply (simp add: filter_Boolean_supplied no_server_only_supplied split: module_preload.split)
    done
qed

text \<open>
  Claim C5. For every configuration and all supplied plugin lists, the list produced by
  \<open>resolvePlugins\<close> ends with \<open>clientInjectionsPlugin\<close>, \<open>cssAnalysisPlugin\<close>,
  \<open>importAnalysisPlugin\<close>, in this order, exactly when the command is not \<open>build\<close>; then
  none of the three stands anywhere before that end, and when the command is \<open>build\<close>
  none of the three stands anywhere in the list.
\<close>

theorem resolvePlugins_server_only_trio:
  "((\<exists>front. resolvePlugins dep rbp config prePlugins normalPlugins postPlugins
        = front @ [ClientInjectionsPlugin, CssAnalysisPlugin, ImportAnalysisPlugin])
     = (config_command config \<noteq> ''build''))
   \<and> (config_command config \<noteq> ''build'' \<longrightarrow>
        (\<exists>front. \<not> list_ex server_only front
           \<and> resolvePlugins dep rbp config prePlugins normalPlugins postPlugins
               = front @ [ClientInjectionsPlugin, CssAnalysisPlugin, ImportAnalysisPlugin]))
   \<and> (config_command config = ''build'' \<longrightarrow>
        \<not> list_ex server_only
            (resolvePlugins dep rbp config prePlugins normalPlugins postPlugins))"
proof -
  let ?R = "resolvePlugins dep rbp config prePlugins normalPlugins postPlugins"
  obtain front where front: "\<not> list_ex server_only front"
    and R: "?R = front @ (if config_command config = ''build'' then []
                  else [ClientInjectionsPlugin, CssAnalysisPlugin, ImportAnalysisPlugin])"
    using resolvePlugins_split[of dep rbp config prePlugins normalPlugins postPlugins] by blast
  show ?thesis
  proof (cases "config_command config = ''build''")
    case True
    with R front have none: "\<not> list_ex server_only ?R" by simp
    have "?R \<noteq> xs @ [ClientInjectionsPlugin, CssAnalysisPlugin, ImportAnalysisPlugin]" for xs
    proof
      assume "?R = xs @ [ClientInjectionsPlugin, CssAnalysisPlugin, ImportAnalysisPlugin]"
      then have "list_ex server_only ?R"
        by (simp add: server_only_def)
      with none show False ..
    qed
    with True none show ?thesis by simp
  next
    case False
    with R front show ?thesis by auto
  qed
qed

theorem resolvePlugins_server_only_trio_witness:
  "resolvePlugins (\<lambda>c ssr. True) (\<lambda>c. ([], [])) (example_config ''serve'') [''a''] [''b''] [''c'']
     = [OptimizedDepsPlugin, WatchPackageDataPlugin, PreAliasPlugin, AliasPlugin, Supplied ''a'',
        ModulePreloadPolyfillPlugin, ResolvePlugin, HtmlInlineProxyPlugin, CssPlugin, EsbuildPlugin,
        JsonPlugin, WasmHelperPlugin, WebWorkerPlugin, AssetPlugin, Supplied ''b'',
        WasmFallbackPlugin, DefinePlugin, CssPostPlugin, WorkerImportMetaUrlPlugin,
        AssetImportMetaUrlPlugin, DynamicImportVarsPlugin, ImportGlobPlugin, Supplied ''c'',
        ClientInjectionsPlugin, CssAnalysisPlugin, ImportAnalysisPlugin]
   \<and> \<not> list_ex server_only
        (resolvePlugins (\<lambda>c ssr. True) (\<lambda>c. ([''x''], [''y''])) (example_config ''build'')
           [''a''] [''b''] [''c''])"
proof -
  have serve: "config_command (example_config ''serve'') \<noteq> ''build''"
    and build: "config_command (example_config ''build'') = ''build''"
    by (simp_all add: example_config_def)
  have a: "resolvePlugins (\<lambda>c ssr. True) (\<lambda>c. ([], [])) (example_config ''serve'') [''a''] [''b''] [''c'']
     = [OptimizedDepsPlugin, WatchPackageDataPlugin, PreAliasPlugin, AliasPlugin, Supplied ''a'',
        ModulePreloadPolyfillPlugin, ResolvePlugin, HtmlInlineProxyPlugin, CssPlugin, EsbuildPlugin,
        JsonPlugin, WasmHelperPlugin, WebWorkerPlugin, AssetPlugin, Supplied ''b'',
        WasmFallbackPlugin, DefinePlugin, CssPostPlugin, WorkerImportMetaUrlPlugin,
        AssetImportMetaUrlPlugin, DynamicImportVarsPlugin, ImportGlobPlugin, Supplied ''c'',
        ClientInjectionsPlugin, CssAnalysisPlugin, ImportAnalysisPlugin]"
    by (simp add: resolvePlugins_def example_config_def)
  from build a show ?thesis
    using resolvePlugins_server_only_trio[of "\<lambda>c ssr. True" "\<lambda>c. ([''x''], [''y''])"
        "example_config ''build''" "[''a'']" "[''b'']" "[''c'']"]
    by simp
qed

section \<open>Properties of the dialect selection\<close>

lemma word_char_not_special:
  assumes "word_char c"
  shows "c \<noteq> CHR ''/''" "c \<noteq> CHR ''.''" "c \<noteq> CHR ''?''" "c \<noteq> CHR ''#''"
  using assms by (auto simp add: word_char_def)

lemma extname_loop_rest:
  assumes "\<not> matchedSlash st" "endPos st \<noteq> - 1" "startDot st \<noteq> - 1" "preDotState st \<noteq> 0"
  shows "startDot (extname_loop path n st) = startDot st
       \<and> endPos (extname_loop path n st) = endPos st
       \<and> preDotState (extname_loop path n st) \<noteq> 0"
  using assms
proof (induction n arbitrary: st)
  case 0
  then show ?case by simp
next
  case (Suc n)
  show ?case
  proof (cases "path ! n = CHR ''/''")
    case True
    with Suc.prems show ?thesis by simp
  next
    case False
    let ?st2 = "if path ! n = CHR ''.'' then
                  (if preDotState st \<noteq> 1 then st\<lparr>preDotState := 1\<rparr> else st)
                else st\<lparr>preDotState := - 1\<rparr>"
    from False Suc.prems have step: "extname_loop path (Suc n) st = extname_loop path n ?st2"
      by simp
    have "\<not> matchedSlash ?st2" "endPos ?st2 \<noteq> - 1" "startDot ?st2 \<noteq> - 1" "preDotState ?st2 \<noteq> 0"
      using Suc.prems by simp_all
    from Suc.IH[OF this] show ?thesis
      unfolding step using Suc.prems by simp
  qed
qed

lemma extname_loop_extension_chars:
  assumes "endPos st \<noteq> - 1" "startDot st = - 1" "k \<le> length e" "list_all word_char e"
  shows "extname_loop (stem @ CHR ''.'' # e) (Suc (length stem + k)) st
       = extname_loop (stem @ CHR ''.'' # e) (Suc (length stem)) st"
  using assms
proof (induction k)
  case 0
  then show ?case by simp
next
  case (Suc k)
  from Suc.prems have "word_char (e ! k)"
    by (simp add: list_all_length)
  then have c: "e ! k \<noteq> CHR ''/''" "e ! k \<noteq> CHR ''.''"
    by (rule word_char_not_special)+
  have nth: "(stem @ CHR ''.'' # e) ! Suc (length stem + k) = e ! k"
    by (simp add: nth_append)
  have "extname_loop (stem @ CHR ''.'' # e) (Suc (Suc (length stem + k))) st
      = extname_loop (stem @ CHR ''.'' # e) (Suc (length stem + k)) st"
    using c Suc.prems(1,2) by (simp add: nth)
  also have "\<dots> = extname_loop (stem @ CHR ''.'' # e) (Suc (length stem)) st"
    using Suc.prems by (intro Suc.IH) simp_all
  finally show ?case by simp
qed

lemma extname_dot_extension:
  assumes "stem \<noteq> []" "last stem \<noteq> CHR ''/''" "e \<noteq> []" "list_all word_char e"
  shows "extname (stem @ CHR ''.'' # e) = CHR ''.'' # e"
proof -
  let ?p = "stem @ CHR ''.'' # e"
  let ?s0 = "\<lparr>startDot = - 1, startPart = 0, endPos = - 1, matchedSlash = True, preDotState = 0\<rparr>"
  let ?s1 = "?s0\<lparr>matchedSlash := False, endPos := int (length ?p)\<rparr>"
  let ?s2 = "?s1\<lparr>startDot := int (length stem)\<rparr>"
  obtain k where k: "length e = Suc k" using assms(3) by (cases e) auto
  obtain front c where stem: "stem = front @ [c]" using assms(1) by (cases stem rule: rev_cases) auto
  with assms(2) have c: "c \<noteq> CHR ''/''" by simp
  let ?s3 = "if c = CHR ''.'' then ?s2\<lparr>preDotState := 1\<rparr> else ?s2\<lparr>preDotState := - 1\<rparr>"
  from assms(4) k have "word_char (e ! k)" by (simp add: list_all_length)
  then have ek: "e ! k \<noteq> CHR ''/''" "e ! k \<noteq> CHR ''.''"
    by (rule word_char_not_special)+
  have nth_last: "?p ! Suc (length stem + k) = e ! k" by (simp add: nth_append)
  have "extname_loop ?p (length ?p) ?s0 = extname_loop ?p (Suc (Suc (length stem + k))) ?s0"
    using k by simp
  also have "\<dots> = extname_loop ?p (Suc (length stem + k)) ?s1"
    using ek k by (simp add: nth_last)
  also have "\<dots> = extname_loop ?p (Suc (length stem)) ?s1"
    using k assms(4) by (intro extname_loop_extension_chars) simp_all
  also have "\<dots> = extname_loop ?p (length stem) ?s2"
    by simp
  also have "\<dots> = extname_loop ?p (Suc (length front)) ?s2"
    using stem by simp
  also have "\<dots> = extname_loop ?p (length front) ?s3"
    using c stem by (simp add: nth_append)
  finally have run: "extname_loop ?p (length ?p) ?s0 = extname_loop ?p (length front) ?s3" .
  have "startDot (extname_loop ?p (length front) ?s3) = startDot ?s3
      \<and> endPos (extname_loop ?p (length front) ?s3) = endPos ?s3
      \<and> preDotState (extname_loop ?p (length front) ?s3) \<noteq> 0"
    by (rule extname_loop_rest) simp_all
  then have fin: "startDot (extname_loop ?p (length ?p) ?s0) = int (length stem)"
    "endPos (extname_loop ?p (length ?p) ?s0) = int (length ?p)"
    "preDotState (extname_loop ?p (length ?p) ?s0) \<noteq> 0"
    unfolding run by simp_all
  show ?thesis
    unfolding extname_def Let_def using fin k by simp
qed

lemma validExtensionRE_dot_extension:
  assumes "e \<noteq> []" "list_all word_char e"
  shows "validExtensionRE_test (stem @ CHR ''.'' # e)"
proof -
  have not_word: "\<not> word_char (CHR ''.'')"
    by (simp add: word_char_def)
  have all: "\<And>c. c \<in> set (rev e) \<Longrightarrow> word_char c"
    using assms(2) by (simp add: list_all_iff)
  have r: "rev (stem @ CHR ''.'' # e) = rev e @ CHR ''.'' # rev stem"
    by simp
  have "takeWhile word_char (rev e @ CHR ''.'' # rev stem)
      = rev e @ takeWhile word_char (CHR ''.'' # rev stem)"
    using all by (rule takeWhile_append2)
  then have "takeWhile word_char (rev e @ CHR ''.'' # rev stem) = rev e"
    using not_word by simp
  moreover have "dropWhile word_char (rev e @ CHR ''.'' # rev stem)
      = dropWhile word_char (CHR ''.'' # rev stem)"
    using all by (rule dropWhile_append2)
  then have "dropWhile word_char (rev e @ CHR ''.'' # rev stem) = CHR ''.'' # rev stem"
    using not_word by simp
  ultimately show ?thesis
    unfolding validExtensionRE_test_def Let_def r using assms(1) by simp
qed

lemma cleanUrl_query:
  assumes "list_all (\<lambda>c. c \<noteq> CHR ''?'' \<and> c \<noteq> CHR ''#'') stem" "list_all word_char e"
    and "c = CHR ''?'' \<or> c = CHR ''#''"
  shows "cleanUrl (stem @ CHR ''.'' # e @ c # q) = stem @ CHR ''.'' # e"
proof -
  have "x \<noteq> CHR ''?'' \<and> x \<noteq> CHR ''#''" if "x \<in> set (stem @ CHR ''.'' # e)" for x
  proof -
    from that consider "x \<in> set stem" | "x = CHR ''.''" | "x \<in> set e"
      by auto
    then show ?thesis
    proof cases
      case 1
      with assms(1) show ?thesis by (simp add: list_all_iff)
    next
      case 2
      then show ?thesis by simp
    next
      case 3
      with assms(2) have "word_char x" by (simp add: list_all_iff)
      then show ?thesis by (simp add: word_char_not_special)
    qed
  qed
  then have "takeWhile (\<lambda>c. c \<noteq> CHR ''?'' \<and> c \<noteq> CHR ''#'') ((stem @ CHR ''.'' # e) @ c # q)
      = (stem @ CHR ''.'' # e) @ takeWhile (\<lambda>c. c \<noteq> CHR ''?'' \<and> c \<noteq> CHR ''#'') (c # q)"
    by (rule takeWhile_append2)
  moreover have "takeWhile (\<lambda>c. c \<noteq> CHR ''?'' \<and> c \<noteq> CHR ''#'') (c # q) = []"
    using assms(3) by auto
  ultimately show ?thesis
    by (simp add: cleanUrl_def)
qed

lemma resolve_lang_unset:
  "resolve_lang None filename
     = dialect_of_extension
         (drop 1 (extname (if validExtensionRE_test filename then filename else cleanUrl filename)))"
  by (simp add: resolve_lang_def dialect_of_extension_def Let_def)

text \<open>
  Claim C4. A non-empty \<open>options.lang\<close> is used as it is. Without one, every filename
  resolves to the dialect of the extension that \<open>path.extname\<close> finds in the raw name
  when that ends in a dot-extension, and in the name stripped of its query-like suffix
  otherwise. In particular, a filename
  \<open>stem.ext\<close> (a non-empty stem not ending in \<open>/\<close>, a non-empty extension of word
  characters) resolves to the dialect of \<open>ext\<close>: \<open>cjs\<close> and \<open>mjs\<close> to \<open>js\<close>, \<open>cts\<close> and
  \<open>mts\<close> to \<open>ts\<close>, every other extension to itself. The same holds for
  \<open>stem.ext\<close> followed by a suffix that starts with \<open>?\<close> or \<open>#\<close>, when the stem has
  neither character and the whole name does not itself end in a dot-extension; a name
  that does end in a dot-extension is taken as it is, without stripping.
\<close>

theorem resolve_lang_dialect:
  assumes "stem \<noteq> []" "last stem \<noteq> CHR ''/''" "e \<noteq> []" "list_all word_char e"
  shows "(lang \<noteq> [] \<longrightarrow> resolve_lang (Some lang) filename = lang)
       \<and> resolve_lang None (stem @ CHR ''.'' # e) = dialect_of_extension e
       \<and> (list_all (\<lambda>c. c \<noteq> CHR ''?'' \<and> c \<noteq> CHR ''#'') stem \<and> (c = CHR ''?'' \<or> c = CHR ''#'')
            \<and> \<not> validExtensionRE_test (stem @ CHR ''.'' # e @ c # q)
          \<longrightarrow> resolve_lang None (stem @ CHR ''.'' # e @ c # q) = dialect_of_extension e)
       \<and> resolve_lang None filename
           = dialect_of_extension
               (drop 1 (extname (if validExtensionRE_test filename then filename
                                 else cleanUrl filename)))
       \<and> dialect_of_extension ''cjs'' = ''js'' \<and> dialect_of_extension ''mjs'' = ''js''
       \<and> dialect_of_extension ''cts'' = ''ts'' \<and> dialect_of_extension ''mts'' = ''ts''
       \<and> (e \<notin> {''cjs'', ''mjs'', ''cts'', ''mts''} \<longrightarrow> dialect_of_extension e = e)"
proof (intro conjI impI)
  show "resolve_lang (Some lang) filename = lang" if "lang \<noteq> []"
    using that by (simp add: resolve_lang_def)
  show "resolve_lang None (stem @ CHR ''.'' # e) = dialect_of_extension e"
    using assms
    by (simp add: resolve_lang_unset validExtensionRE_dot_extension extname_dot_extension)
  show "resolve_lang None (stem @ CHR ''.'' # e @ c # q) = dialect_of_extension e"
    if "list_all (\<lambda>c. c \<noteq> CHR ''?'' \<and> c \<noteq> CHR ''#'') stem \<and> (c = CHR ''?'' \<or> c = CHR ''#'')
            \<and> \<not> validExtensionRE_test (stem @ CHR ''.'' # e @ c # q)"
    using that assms
    by (simp add: resolve_lang_unset cleanUrl_query extname_dot_extension)
  show "resolve_lang None filename
      = dialect_of_extension
          (drop 1 (extname (if validExtensionRE_test filename then filename
                            else cleanUrl filename)))"
    by (rule resolve_lang_unset)
  show "dialect_of_extension e = e" if "e \<notin> {''cjs'', ''mjs'', ''cts'', ''mts''}"
    using that by (simp add: dialect_of_extension_def)
qed (simp_all add: dialect_of_extension_def)

theorem resolve_lang_dialect_witness:
  "resolve_lang None ''comp.mts'' = ''ts'' \<and> resolve_lang None ''worker.cjs?raw'' = ''js''
   \<and> resolve_lang (Some ''tsx'') ''worker.cjs?raw'' = ''tsx''"
proof -
  have w1: "list_all word_char ''mts''" and w2: "list_all word_char ''cjs''"
    by code_simp+
  have q: "list_all (\<lambda>c. c \<noteq> CHR ''?'' \<and> c \<noteq> CHR ''#'') ''worker''"
    by simp
  have nv: "\<not> validExtensionRE_test ''worker.cjs?raw''"
    by code_simp
  have s1: "''comp'' \<noteq> []" "last ''comp'' \<noteq> CHR ''/''" "''mts'' \<noteq> []"
    and s2: "''worker'' \<noteq> []" "last ''worker'' \<noteq> CHR ''/''" "''cjs'' \<noteq> []"
    by simp_all
  have a: "resolve_lang None (''comp'' @ CHR ''.'' # ''mts'') = dialect_of_extension ''mts''"
    by (rule resolve_lang_dialect[OF s1 w1, THEN conjunct2, THEN conjunct1])
  have "list_all (\<lambda>c. c \<noteq> CHR ''?'' \<and> c \<noteq> CHR ''#'') ''worker''
        \<and> (CHR ''?'' = CHR ''?'' \<or> CHR ''?'' = CHR ''#'')
        \<and> \<not> validExtensionRE_test (''worker'' @ CHR ''.'' # ''cjs'' @ CHR ''?'' # ''raw'')
      \<longrightarrow> resolve_lang None (''worker'' @ CHR ''.'' # ''cjs'' @ CHR ''?'' # ''raw'')
          = dialect_of_extension ''cjs''"
    by (rule resolve_lang_dialect[OF s2 w2, THEN conjunct2, THEN conjunct2, THEN conjunct1])
  with q nv have b: "resolve_lang None (''worker'' @ CHR ''.'' # ''cjs'' @ CHR ''?'' # ''raw'')
      = dialect_of_extension ''cjs''"
    by simp
  have "''tsx'' \<noteq> [] \<longrightarrow> resolve_lang (Some ''tsx'') ''worker.cjs?raw'' = ''tsx''"
    by (rule resolve_lang_dialect[OF s2 w2, THEN conjunct1])
  then have c: "resolve_lang (Some ''tsx'') ''worker.cjs?raw'' = ''tsx''"
    by simp
  from a b c show ?thesis
    by (simp add: dialect_of_extension_def)
qed

section \<open>Properties of the directive resolution\<close>

lemma resolve_lang_examples:
  "resolve_lang None ''comp.mts'' = ''ts''" "resolve_lang None ''main.js'' = ''js''"
  by code_simp+

lemma apply_jsx_settings_frame:
  "resolvedOptions_typescript (snd (apply_jsx_settings lang co ro)) = resolvedOptions_typescript ro"
  by (simp add: apply_jsx_settings_def Let_def)

lemma apply_jsx_settings_effects:
  "fst (apply_jsx_settings lang co ro)
     = (if jsx co = Some ''preserve'' \<and> lang = ''tsx''
        then [''The tsconfig jsx preserve is not supported by oxc''] else [])"
  by (simp add: apply_jsx_settings_def Let_def)

lemma apply_type_import_settings_table:
  "strip_flag (resolvedOptions_typescript (snd (apply_type_import_settings co ro)))
     = (case strip_decision_table co of
          Strip b \<Rightarrow> Some b
        | _ \<Rightarrow> strip_flag (resolvedOptions_typescript ro))"
  "fst (apply_type_import_settings co ro)
     = (if strip_decision_table co = Unsupported then [unsupported_warning co] else [])"
  by (auto simp add: apply_type_import_settings_def strip_decision_table_def strip_flag_def
      unsupported_warning_def Let_def split: option.splits)

lemma resolve_directive_loaded:
  assumes "resolve_lang (supplied options_lang options) filename \<in> {''ts'', ''tsx''}"
    and "loadTsconfigJsonForFile filename config = Inr (loadedTsconfig, tsconfigFile)"
  shows "resolve_directive loadTsconfigJsonForFile filename options config watcher
     = (let lang = resolve_lang (supplied options_lang options) filename;
            co = (case compilerOptions loadedTsconfig of
                    None \<Rightarrow> empty_CompilerOptions | Some c \<Rightarrow> c);
            ro0 = \<lparr>resolvedOptions_sourcemap = spread_over True (supplied options_sourcemap options),
                   resolvedOptions_jsx = supplied options_jsx options,
                   resolvedOptions_typescript = supplied options_typescript options,
                   resolvedOptions_lang = lang\<rparr>;
            ro1 = snd (apply_jsx_settings lang co ro0)
        in ((case (watcher, config) of
               (Some w, Some c) \<Rightarrow>
                 if truthy tsconfigFile
                 then [EnsureWatchedFile w (the tsconfigFile) (config_root c)] else []
             | _ \<Rightarrow> [])
            @ map Warn (fst (apply_jsx_settings lang co ro0))
            @ map Warn (fst (apply_type_import_settings co ro1)),
            Inr (snd (apply_type_import_settings co ro1))))"
proof -
  from assms(1) have "resolve_lang (supplied options_lang options) filename = ''ts''
      \<or> resolve_lang (supplied options_lang options) filename = ''tsx''"
    by simp
  with assms(2) show ?thesis
    by (simp add: resolve_directive_def Let_def case_prod_beta)
qed

lemma strip_decision_table_rows:
  "strip_decision_table (empty_CompilerOptions\<lparr>verbatimModuleSyntax := Some True,
                                              preserveValueImports := Some True\<rparr>) = Strip True"
  "strip_decision_table (empty_CompilerOptions\<lparr>verbatimModuleSyntax := Some False\<rparr>)
     = Strip False"
  "strip_decision_table (empty_CompilerOptions\<lparr>preserveValueImports := Some False\<rparr>)
     = Strip True"
  "strip_decision_table (empty_CompilerOptions\<lparr>preserveValueImports := Some True,
                                              importsNotUsedAsValues := Some ''preserve''\<rparr>)
     = Strip False"
  "strip_decision_table (empty_CompilerOptions\<lparr>importsNotUsedAsValues := Some ''error''\<rparr>)
     = Unsupported"
  "strip_decision_table empty_CompilerOptions = Unset"
  by (simp_all add: strip_decision_table_def empty_CompilerOptions_def)

text \<open>
  Claim C2. For a typed-script file whose project settings load, the options handed to
  the engine carry the strip-type-only-imports flag of the decision table: the value the
  table gives when it gives one, and otherwise the flag as the caller's options had it
  (unset when they did not set it); the warning that names both legacy flags is emitted
  exactly for the unsupported combinations.
\<close>

theorem strip_type_only_imports_decision:
  assumes "resolve_lang (supplied options_lang options) filename \<in> {''ts'', ''tsx''}"
    and "loadTsconfigJsonForFile filename config = Inr (loadedTsconfig, tsconfigFile)"
    and "co = (case compilerOptions loadedTsconfig of
                 None \<Rightarrow> empty_CompilerOptions | Some c \<Rightarrow> c)"
  shows "case resolve_directive loadTsconfigJsonForFile filename options config watcher of
           (effects, Inr resolvedOptions) \<Rightarrow>
             strip_flag (resolvedOptions_typescript resolvedOptions)
               = (case strip_decision_table co of
                    Strip b \<Rightarrow> Some b
                  | _ \<Rightarrow> strip_flag (supplied options_typescript options))
             \<and> (Warn (unsupported_warning co) \<in> set effects)
                 = (strip_decision_table co = Unsupported)
         | (effects, Inl e) \<Rightarrow> False"
proof -
  have not_jsx: "unsupported_warning co \<noteq> ''The tsconfig jsx preserve is not supported by oxc''"
    by (simp add: unsupported_warning_def)
  show ?thesis
    using not_jsx
    apply (subst resolve_directive_loaded[where loadedTsconfig = loadedTsconfig
          and tsconfigFile = tsconfigFile, OF assms(1)])
     apply (rule assms(2))
    apply (simp only: Let_def assms(3)[symmetric])
    apply (auto simp add: apply_type_import_settings_table apply_jsx_settings_frame
        apply_jsx_settings_effects split: strip_decision.splits)
    done
qed

theorem strip_type_only_imports_decision_witness:
  "strip_decision_table
     (empty_CompilerOptions\<lparr>preserveValueImports := Some True,
                             importsNotUsedAsValues := Some ''remove''\<rparr>) = Unsupported
   \<and> (case resolve_directive (\<lambda>file cfg. Inr (example_legacy_tsconfig, None)) ''comp.mts''
            None None (None :: nat option) of
         (effects, Inr resolvedOptions) \<Rightarrow>
           strip_flag (resolvedOptions_typescript resolvedOptions) = None
           \<and> Warn (''preserveValueImports=true + importsNotUsedAsValues=remove is not supported by oxc.''
                    @ ''Please migrate to the new verbatimModuleSyntax option.'') \<in> set effects
       | (effects, Inl e) \<Rightarrow> False)"
proof -
  let ?co = "empty_CompilerOptions\<lparr>preserveValueImports := Some True,
                                     importsNotUsedAsValues := Some ''remove''\<rparr>"
  have lang: "resolve_lang (supplied options_lang None) ''comp.mts'' \<in> {''ts'', ''tsx''}"
    by (simp add: supplied_def resolve_lang_examples)
  have load: "(\<lambda>file cfg. Inr (example_legacy_tsconfig, None)) ''comp.mts'' None
      = (Inr (example_legacy_tsconfig, None) :: thrown + Tsconfig \<times> string option)"
    by simp
  have co: "?co = (case compilerOptions example_legacy_tsconfig of
        None \<Rightarrow> empty_CompilerOptions | Some c \<Rightarrow> c)"
    by (simp add: example_legacy_tsconfig_def)
  have tab: "strip_decision_table ?co = Unsupported"
    by (simp add: strip_decision_table_def empty_CompilerOptions_def)
  have msg: "unsupported_warning ?co
      = ''preserveValueImports=true + importsNotUsedAsValues=remove is not supported by oxc.''
        @ ''Please migrate to the new verbatimModuleSyntax option.''"
    by (simp add: unsupported_warning_def show_bool_def empty_CompilerOptions_def)
  from strip_type_only_imports_decision[where config = None and watcher = "None :: nat option"
      and loadTsconfigJsonForFile = "\<lambda>file cfg. Inr (example_legacy_tsconfig, None)"
      and loadedTsconfig = example_legacy_tsconfig and tsconfigFile = None
      and filename = "''comp.mts''" and options = None, OF lang load co] tab msg
  show ?thesis
    by (auto simp add: supplied_def strip_flag_def split: prod.splits sum.splits)
qed

section \<open>Properties of transformWithOxc\<close>

lemma resolve_directive_untyped:
  assumes "resolve_lang (supplied options_lang options) filename \<notin> {''ts'', ''tsx''}"
  shows "resolve_directive loadTsconfigJsonForFile filename options config watcher
     = ([], Inr \<lparr>resolvedOptions_sourcemap = spread_over True (supplied options_sourcemap options),
                  resolvedOptions_jsx = supplied options_jsx options,
                  resolvedOptions_typescript = supplied options_typescript options,
                  resolvedOptions_lang = resolve_lang (supplied options_lang options) filename\<rparr>)"
  using assms by (simp add: resolve_directive_def Let_def)

lemma resolve_directive_load_failure:
  assumes "resolve_lang (supplied options_lang options) filename \<in> {''ts'', ''tsx''}"
    and "loadTsconfigJsonForFile filename config = Inl e"
  shows "snd (resolve_directive loadTsconfigJsonForFile filename options config watcher) = Inl e"
proof -
  from assms(1) have "resolve_lang (supplied options_lang options) filename = ''ts''
      \<or> resolve_lang (supplied options_lang options) filename = ''tsx''"
    by simp
  with assms(2) show ?thesis
    by (simp add: resolve_directive_def Let_def)
qed

lemma transformWithOxc_directive_failure:
  assumes "resolve_directive loadTsconfigJsonForFile filename options config watcher
             = (effects, Inl e)"
  shows "transformWithOxc loadTsconfigJsonForFile transform combineSourcemaps
           code filename options inMap config watcher = (effects, Inl e)"
  using assms by (simp add: transformWithOxc_def)

text \<open>
  Claim C7. Once the directive is resolved, \<open>transformWithOxc\<close> throws exactly when the
  engine's result holds one or more errors, and what it throws is an \<open>Error\<close> carrying the
  first of them; with an empty error list it returns the engine's result (its code
  unchanged). The effects of the directive resolution are the effects of the call.
\<close>

theorem transformWithOxc_engine_errors:
  assumes "resolve_directive loadTsconfigJsonForFile filename options config watcher
             = (effects, Inr resolvedOptions)"
  shows "fst (transformWithOxc loadTsconfigJsonForFile transform combineSourcemaps
                code filename options inMap config watcher) = effects
       \<and> (case snd (transformWithOxc loadTsconfigJsonForFile transform combineSourcemaps
                      code filename options inMap config watcher) of
            Inl e \<Rightarrow>
              result_errors (transform filename code resolvedOptions) \<noteq> []
              \<and> e = Error (hd (result_errors (transform filename code resolvedOptions)))
          | Inr result \<Rightarrow>
              result_errors (transform filename code resolvedOptions) = []
              \<and> result_code result = result_code (transform filename code resolvedOptions)
              \<and> result_errors result = [])"
proof (cases "result_errors (transform filename code resolvedOptions)")
  case Nil
  with assms show ?thesis
    by (simp add: transformWithOxc_def Let_def)
next
  case (Cons m ms)
  with assms show ?thesis
    by (simp add: transformWithOxc_def Let_def)
qed

theorem transformWithOxc_engine_errors_witness:
  "snd (transformWithOxc (\<lambda>file cfg. Inl (OtherFailure ''unused''))
          (example_engine [''Unexpected token'', ''second'']) (\<lambda>file maps. hd maps)
          ''let'' ''main.js'' None None None (None :: nat option))
     = Inl (Error ''Unexpected token'')
   \<and> snd (transformWithOxc (\<lambda>file cfg. Inl (OtherFailure ''unused''))
          (example_engine []) (\<lambda>file maps. hd maps)
          ''let x'' ''main.js'' None None None (None :: nat option))
     = Inr \<lparr>result_code = ''let x'', result_map = None, result_errors = []\<rparr>"
proof -
  let ?L = "\<lambda>(file :: string) (cfg :: ResolvedConfig option).
              (Inl (OtherFailure ''unused'') :: thrown + Tsconfig \<times> string option)"
  let ?ro = "\<lparr>resolvedOptions_sourcemap = True, resolvedOptions_jsx = None,
              resolvedOptions_typescript = None, resolvedOptions_lang = ''js''\<rparr>"
  have lang: "resolve_lang (supplied options_lang None) ''main.js'' \<notin> {''ts'', ''tsx''}"
    by (simp add: supplied_def resolve_lang_examples)
  have rd: "resolve_directive ?L ''main.js'' None None (None :: nat option) = ([], Inr ?ro)"
    using resolve_directive_untyped[OF lang, of ?L None "None :: nat option"]
    by (simp add: supplied_def spread_over_def resolve_lang_examples)
  have a: "snd (transformWithOxc ?L (example_engine [''Unexpected token'', ''second''])
            (\<lambda>file maps. hd maps) ''let'' ''main.js'' None None None (None :: nat option))
      = Inl (Error ''Unexpected token'')"
    using transformWithOxc_engine_errors[OF rd,
        of "example_engine [''Unexpected token'', ''second'']" "\<lambda>file maps. hd maps" "''let''" None]
    by (simp add: example_engine_def split: sum.splits)
  have b: "snd (transformWithOxc ?L (example_engine []) (\<lambda>file maps. hd maps)
            ''let x'' ''main.js'' None None None (None :: nat option))
      = Inr \<lparr>result_code = ''let x'', result_map = None, result_errors = []\<rparr>"
    using rd by (simp add: transformWithOxc_def example_engine_def)
  from a b show ?thesis by simp
qed

text \<open>
  Claim C8. For a typed-script file, when the settings loader fails with a parse error
  that names a settings file and a watcher and a configuration were supplied, the call
  registers that file with the watcher (under the configuration's root), does nothing
  else, and throws the very value the loader threw.
\<close>

theorem parse_error_watched_then_rethrown:
  assumes "resolve_lang (supplied options_lang options) filename \<in> {''ts'', ''tsx''}"
    and "loadTsconfigJsonForFile filename (Some config)
           = Inl (TSConfckParseError message (Some tsconfigFile))"
    and "tsconfigFile \<noteq> []"
  shows "transformWithOxc loadTsconfigJsonForFile transform combineSourcemaps
           code filename options inMap (Some config) (Some watcher)
         = ([EnsureWatchedFile watcher tsconfigFile (config_root config)],
            Inl (TSConfckParseError message (Some tsconfigFile)))"
proof -
  from assms(1) have "resolve_lang (supplied options_lang options) filename = ''ts''
      \<or> resolve_lang (supplied options_lang options) filename = ''tsx''"
    by simp
  with assms(2,3) have "resolve_directive loadTsconfigJsonForFile filename options
        (Some config) (Some watcher)
      = ([EnsureWatchedFile watcher tsconfigFile (config_root config)],
         Inl (TSConfckParseError message (Some tsconfigFile)))"
    by (simp add: resolve_directive_def Let_def truthy_def)
  then show ?thesis
    by (rule transformWithOxc_directive_failure)
qed

theorem parse_error_watched_then_rethrown_witness:
  "transformWithOxc
     (\<lambda>file cfg. Inl (TSConfckParseError ''unexpected end of file'' (Some ''/lib/tsconfig.json'')))
     (example_engine []) (\<lambda>file maps. hd maps) ''export {}'' ''comp.mts'' None None
     (Some (example_config ''serve'')) (Some (7 :: nat))
   = ([EnsureWatchedFile 7 ''/lib/tsconfig.json'' ''/app''],
      Inl (TSConfckParseError ''unexpected end of file'' (Some ''/lib/tsconfig.json'')))"
proof -
  have lang: "resolve_lang (supplied options_lang None) ''comp.mts'' \<in> {''ts'', ''tsx''}"
    by (simp add: supplied_def resolve_lang_examples)
  have load: "(\<lambda>file cfg. Inl (TSConfckParseError ''unexpected end of file''
                  (Some ''/lib/tsconfig.json''))) ''comp.mts'' (Some (example_config ''serve''))
      = (Inl (TSConfckParseError ''unexpected end of file'' (Some ''/lib/tsconfig.json''))
          :: thrown + Tsconfig \<times> string option)"
    by simp
  have nonempty: "''/lib/tsconfig.json'' \<noteq> []"
    by simp
  from parse_error_watched_then_rethrown[where
      loadTsconfigJsonForFile = "\<lambda>file cfg. Inl (TSConfckParseError ''unexpected end of file''
                  (Some ''/lib/tsconfig.json''))"
      and filename = "''comp.mts''" and options = None
      and config = "example_config ''serve''" and watcher = "7 :: nat", OF lang load nonempty,
      of "example_engine []" "\<lambda>file maps. hd maps" "''export {}''" None]
  show ?thesis
    by (simp add: example_config_def)
qed

section \<open>Properties of the legacy option adapter\<close>

text \<open>
  The first definition maps the loader and the \<open>sourcemap\<close> option as the
  specification says, and warns about exactly the values it drops for being unsupported.
\<close>

lemma convertEsbuildConfigToOxcConfig_mapping:
  "oxc_lang (snd (convertEsbuildConfigToOxcConfig esbuildConfig))
     = (case esbuild_loader esbuildConfig of
          None \<Rightarrow> None
        | Some l \<Rightarrow> if l \<in> {''js'', ''jsx'', ''ts'', ''tsx''} then Some l else None)"
  "oxc_sourcemap (snd (convertEsbuildConfigToOxcConfig esbuildConfig))
     = (case esbuild_sourcemap esbuildConfig of
          None \<Rightarrow> None
        | Some (SourcemapFlag b) \<Rightarrow> Some b
        | Some (SourcemapMode m) \<Rightarrow> if m = ''external'' then Some True else None)"
  "fst (convertEsbuildConfigToOxcConfig esbuildConfig)
     = fst (convert_jsx ''by'' esbuildConfig)
       @ (case esbuild_loader esbuildConfig of
            None \<Rightarrow> []
          | Some l \<Rightarrow>
              if l = [] \<or> l \<in> {''js'', ''jsx'', ''ts'', ''tsx''} then []
              else [''The esbuild loader '' @ l @ '' is not supported by oxc''])
       @ (case esbuild_sourcemap esbuildConfig of
            Some (SourcemapMode m) \<Rightarrow>
              if m = ''external'' \<or> m = ''linked'' then []
              else [''The esbuild sourcemap '' @ m @ '' is not supported by oxc'']
          | _ \<Rightarrow> [])"
  by (auto simp add: convertEsbuildConfigToOxcConfig_def Let_def case_prod_beta truthy_def
      split: option.splits esbuild_sourcemap.splits)

text \<open>
  Claim C9 holds for the first definition (lemma above) and fails for the second one:
  there the loader \<open>js\<close>, one of the four dialect tags, is warned about and dropped,
  while \<open>.js\<close> is accepted as \<open>lang\<close>; a missing \<open>sourcemap\<close> is warned about as
  \<open>undefined\<close>; \<open>external\<close> is warned about and dropped instead of becoming \<open>true\<close>;
  \<open>linked\<close> is warned about instead of being dropped silently.
\<close>

theorem convertEsbuildConfigToOxcConfig_second_loader_js:
  "convertEsbuildConfigToOxcConfig_second (no_esbuild_options\<lparr>esbuild_loader := Some ''js''\<rparr>)
     = ([''The esbuild loader js is not supported at oxc'',
         ''The esbuild sourcemap undefined is not supported at oxc''],
        \<lparr>oxc_jsxInject = None, oxc_include = None, oxc_exclude = None,
         oxc_jsx = empty_JsxOptions, oxc_lang = None, oxc_define = None, oxc_sourcemap = None\<rparr>)
   \<and> convertEsbuildConfigToOxcConfig (no_esbuild_options\<lparr>esbuild_loader := Some ''js''\<rparr>)
     = ([],
        \<lparr>oxc_jsxInject = None, oxc_include = None, oxc_exclude = None,
         oxc_jsx = empty_JsxOptions, oxc_lang = Some ''js'', oxc_define = None,
         oxc_sourcemap = None\<rparr>)
   \<and> oxc_lang (snd (convertEsbuildConfigToOxcConfig_second
                      (no_esbuild_options\<lparr>esbuild_loader := Some ''.js''\<rparr>))) = Some ''.js''
   \<and> fst (convertEsbuildConfigToOxcConfig_second
            (no_esbuild_options\<lparr>esbuild_sourcemap := Some (SourcemapMode ''external'')\<rparr>))
       = [''The esbuild sourcemap external is not supported at oxc'']
   \<and> oxc_sourcemap (snd (convertEsbuildConfigToOxcConfig_second
            (no_esbuild_options\<lparr>esbuild_sourcemap := Some (SourcemapMode ''external'')\<rparr>))) = None
   \<and> fst (convertEsbuildConfigToOxcConfig_second
            (no_esbuild_options\<lparr>esbuild_sourcemap := Some (SourcemapMode ''linked'')\<rparr>))
       = [''The esbuild sourcemap linked is not supported at oxc'']"
  by (simp add: convertEsbuildConfigToOxcConfig_second_def convertEsbuildConfigToOxcConfig_def
      no_esbuild_options_def convert_jsx_def Let_def truthy_def show_sourcemap_def)

end
